theory Spec2Isabelle
  imports Complex_Main
begin

section \<open>Numbers\<close>

text \<open>
  The foundation computes with JavaScript numbers. A finite number is modelled by the real
  it denotes (rounding and overflow of the double format are left out, and the sign of zero
  is not tracked: a zero is the non-negative zero, which is what measured sizes and the
  products formed from them produce); the three non-finite values are kept, because an
  arithmetic operation of the source never throws but returns one of them. The operators
  below are \<^verbatim>\<open>+\<close>, \<^verbatim>\<open>-\<close>, \<^verbatim>\<open>*\<close>, \<^verbatim>\<open>/\<close>, \<^verbatim>\<open>Math.sqrt\<close>, \<^verbatim>\<open>Math.min\<close>, \<^verbatim>\<open>Math.max\<close>,
  \<^verbatim>\<open>Math.round\<close> and \<^verbatim>\<open><=\<close> on such values.
\<close>

datatype jsnum = Fin real | PInf | NInf | NaN

definition js_signed_inf :: "real \<Rightarrow> jsnum" where
  "js_signed_inf s = (if 0 < s then PInf else if s < 0 then NInf else NaN)"

fun js_sign :: "jsnum \<Rightarrow> real" where
  "js_sign (Fin a) = sgn a"
| "js_sign PInf = 1"
| "js_sign NInf = - 1"
| "js_sign NaN = 0"

fun js_neg :: "jsnum \<Rightarrow> jsnum" where
  "js_neg (Fin a) = Fin (- a)"
| "js_neg PInf = NInf"
| "js_neg NInf = PInf"
| "js_neg NaN = NaN"

fun js_add :: "jsnum \<Rightarrow> jsnum \<Rightarrow> jsnum" where
  "js_add (Fin a) (Fin b) = Fin (a + b)"
| "js_add NaN _ = NaN"
| "js_add _ NaN = NaN"
| "js_add PInf NInf = NaN"
| "js_add NInf PInf = NaN"
| "js_add PInf _ = PInf"
| "js_add _ PInf = PInf"
| "js_add NInf _ = NInf"
| "js_add _ NInf = NInf"

definition js_sub :: "jsnum \<Rightarrow> jsnum \<Rightarrow> jsnum" where
  "js_sub a b = js_add a (js_neg b)"

fun js_mul :: "jsnum \<Rightarrow> jsnum \<Rightarrow> jsnum" where
  "js_mul (Fin a) (Fin b) = Fin (a * b)"
| "js_mul NaN _ = NaN"
| "js_mul _ NaN = NaN"
| "js_mul a b = js_signed_inf (js_sign a * js_sign b)"

fun js_div :: "jsnum \<Rightarrow> jsnum \<Rightarrow> jsnum" where
  "js_div (Fin a) (Fin b) = (if b \<noteq> 0 then Fin (a / b) else js_signed_inf (sgn a))"
| "js_div NaN _ = NaN"
| "js_div _ NaN = NaN"
| "js_div (Fin a) _ = Fin 0"
| "js_div PInf (Fin b) = (if 0 \<le> b then PInf else NInf)"
| "js_div NInf (Fin b) = (if 0 \<le> b then NInf else PInf)"
| "js_div _ _ = NaN"

fun js_sqrt :: "jsnum \<Rightarrow> jsnum" where
  "js_sqrt (Fin a) = (if a < 0 then NaN else Fin (sqrt a))"
| "js_sqrt PInf = PInf"
| "js_sqrt NInf = NaN"
| "js_sqrt NaN = NaN"

fun js_min :: "jsnum \<Rightarrow> jsnum \<Rightarrow> jsnum" where
  "js_min (Fin a) (Fin b) = Fin (min a b)"
| "js_min NaN _ = NaN"
| "js_min _ NaN = NaN"
| "js_min NInf _ = NInf"
| "js_min _ NInf = NInf"
| "js_min PInf b = b"
| "js_min a PInf = a"

fun js_max :: "jsnum \<Rightarrow> jsnum \<Rightarrow> jsnum" where
  "js_max (Fin a) (Fin b) = Fin (max a b)"
| "js_max NaN _ = NaN"
| "js_max _ NaN = NaN"
| "js_max PInf _ = PInf"
| "js_max _ PInf = PInf"
| "js_max NInf b = b"
| "js_max a NInf = a"

fun js_round :: "jsnum \<Rightarrow> jsnum" where
  "js_round (Fin a) = Fin (of_int \<lfloor>a + 1 / 2\<rfloor>)"
| "js_round a = a"

fun js_le :: "jsnum \<Rightarrow> jsnum \<Rightarrow> bool" where
  "js_le (Fin a) (Fin b) = (a \<le> b)"
| "js_le NaN _ = False"
| "js_le _ NaN = False"
| "js_le NInf _ = True"
| "js_le _ PInf = True"
| "js_le _ _ = False"

section \<open>Constants and the adapter\<close>

text \<open>
  The module \<^verbatim>\<open>./constants\<close> (\<^verbatim>\<open>cssClasses\<close>, \<^verbatim>\<open>strings\<close>, \<^verbatim>\<open>numbers\<close>) is not among the
  sources. The class names and variable names the foundation refers to are kept as symbols;
  the record of numbers is a parameter of every function that reads it.
\<close>

datatype cssClass =
    ROOT | UNBOUNDED | BG_ACTIVE | BG_BOUNDED_ACTIVE_FILL
  | FG_BOUNDED_ACTIVE_FILL | FG_UNBOUNDED_ACTIVATION | FG_UNBOUNDED_DEACTIVATION

datatype cssVar =
    VAR_SURFACE_WIDTH | VAR_SURFACE_HEIGHT | VAR_FG_SIZE
  | VAR_FG_UNBOUNDED_OPACITY_DURATION | VAR_FG_UNBOUNDED_TRANSFORM_DURATION
  | VAR_LEFT | VAR_TOP | VAR_FG_SCALE | VAR_FG_APPROX_XF
  | VAR_FG_TRANSLATE_START | VAR_FG_TRANSLATE_END

record numbers =
  FG_TRANSFORM_DELAY_MS :: real
  OPACITY_DURATION_DIVISOR :: real
  ACTIVE_OPACITY_DURATION_MS :: real
  UNBOUNDED_TRANSFORM_DURATION_MS :: real
  MIN_OPACITY_DURATION_MS :: real
  PADDING :: real
  INITIAL_ORIGIN_SCALE :: real

text \<open>
  Modelled from the spec: the values of \<^verbatim>\<open>numbers\<close> in \<^verbatim>\<open>./constants\<close>, which is missing.
  The spec fixes the origin scale (``60% of the larger of width/height'') and the source
  comment in \<^verbatim>\<open>layoutInternal_\<close> fixes the padding (``Diameter of the surface + 10px''). The
  spec names the five timing constants without giving values; the values below are only used
  to instantiate the general results at a concrete input.
\<close>

definition constants :: numbers where
  "constants = \<lparr>FG_TRANSFORM_DELAY_MS = 80, OPACITY_DURATION_DIVISOR = 3,
     ACTIVE_OPACITY_DURATION_MS = 110, UNBOUNDED_TRANSFORM_DURATION_MS = 300,
     MIN_OPACITY_DURATION_MS = 200, PADDING = 10, INITIAL_ORIGIN_SCALE = 6 / 10\<rparr>"

text \<open>The value written to a style variable: the template strings of the source, unformatted.\<close>

datatype cssValue =
    Px jsnum                \<comment> \<open>\<^verbatim>\<open>`${v}px`\<close>\<close>
  | Ms jsnum                \<comment> \<open>\<^verbatim>\<open>`${v}ms`\<close>\<close>
  | Scale jsnum             \<comment> \<open>\<^verbatim>\<open>`scale(${v})`\<close>\<close>
  | Translate jsnum jsnum   \<comment> \<open>\<^verbatim>\<open>`${x}px, ${y}px`\<close>\<close>
  | Plain jsnum             \<comment> \<open>the number itself\<close>
  | Null

text \<open>The rectangle the adapter measures; its numbers are finite.\<close>

record ClientRect =
  left :: real
  top :: real
  width :: real
  height :: real

record event =
  type :: string
  pageX :: real
  pageY :: real

text \<open>The keys of \<^verbatim>\<open>listeners_\<close>; a handler is identified by its key.\<close>

datatype listener = L_activate | L_deactivate | L_focus | L_blur

text \<open>
  \<^verbatim>\<open>getCorrectEventName(window, name)\<close> of the external package \<^verbatim>\<open>@material/animation\<close> is
  kept as a symbol.
\<close>

datatype eventName = CorrectEventName string

text \<open>
  Every call of the foundation into the adapter, and into the helper \<^verbatim>\<open>animateWithClass\<close> of
  the missing module \<^verbatim>\<open>./util\<close>, is recorded in a trace, in program order.
\<close>

datatype call =
    BrowserSupportsCssVars
  | IsUnbounded
  | IsSurfaceActive
  | AddClass cssClass
  | RemoveClass cssClass
  | RegisterInteractionHandler string listener
  | DeregisterInteractionHandler string listener
  | RegisterResizeHandler
  | DeregisterResizeHandler
  | UpdateCssVariable cssVar cssValue
  | ComputeBoundingRect
  | GetWindowPageOffset
  | AnimateWithClass cssClass eventName
  | CallCancel cssClass eventName

text \<open>
  What the adapter and the clock answer during one turn of the event loop (one handler call
  or one frame callback). \<^verbatim>\<open>getNormalizedEventCoords\<close> belongs to the missing \<^verbatim>\<open>./util\<close> and
  is a parameter.
\<close>

record env =
  browserSupportsCssVars :: bool
  isUnbounded :: bool
  isSurfaceActive :: bool
  computeBoundingRect :: ClientRect
  getWindowPageOffset :: "real \<times> real"
  getNormalizedEventCoords :: "event \<Rightarrow> real \<times> real \<Rightarrow> ClientRect \<Rightarrow> real \<times> real"
  now :: int

section \<open>The foundation\<close>

text \<open>
  Names are those of \<^verbatim>\<open>foundation.js\<close>; the trailing underscore of private members is dropped.
  \<^verbatim>\<open>activationState_\<close> holds a reference to a mutable object, and the frame callback of
  \<^verbatim>\<open>activate_\<close> keeps the reference it was created with, so activation-state objects live in
  a store and the foundation holds an address. Pending \<^verbatim>\<open>requestAnimationFrame\<close> callbacks
  and pending timeouts are part of the state.
\<close>

record activation_state =
  isActivated :: bool
  wasActivatedByPointer :: bool
  wasElementMadeActive :: bool
  activationStartTime :: int
  activationEvent :: "event option"

text \<open>The closures passed to \<^verbatim>\<open>requestAnimationFrame\<close>, with what each one captures.\<close>

datatype frameCallback =
    InitCallback                                \<comment> \<open>\<^verbatim>\<open>init\<close>, lines 123-129\<close>
  | ActivateCallback event nat                  \<comment> \<open>\<^verbatim>\<open>activate_\<close>, lines 154-167\<close>
  | DeactivateCallback event activation_state   \<comment> \<open>\<^verbatim>\<open>deactivate_\<close>, line 221\<close>
  | DestroyCallback                             \<comment> \<open>\<^verbatim>\<open>destroy\<close>, lines 329-333\<close>
  | LayoutCallback                              \<comment> \<open>\<^verbatim>\<open>layout\<close>, lines 358-361\<close>
  | FocusCallback                               \<comment> \<open>\<^verbatim>\<open>listeners_.focus\<close>, line 88\<close>
  | BlurCallback                                \<comment> \<open>\<^verbatim>\<open>listeners_.blur\<close>, line 91\<close>

text \<open>A cancel function: the initial no-op, or the one \<^verbatim>\<open>animateWithClass\<close> returned.\<close>

datatype cancel = Noop | Cancel cssClass eventName

datatype error = TypeError

record foundation =
  layoutFrame :: nat
  frame :: ClientRect
  activationState :: nat
  xfDuration :: jsnum
  initialSize :: jsnum
  maxRadius :: jsnum
  unboundedOpacityFadeTimer :: nat
  cancelBgBounded :: cancel
  cancelFgBounded :: cancel
  cancelFgUnbounded :: cancel
  unboundedCoords :: "jsnum \<times> jsnum"
  fgScale :: jsnum
  heap :: "nat \<Rightarrow> activation_state"
  next_ref :: nat
  frames :: "(nat \<times> frameCallback) list"
  next_handle :: nat
  timers :: "(nat \<times> jsnum) list"
  next_timer :: nat
  calls :: "call list"

definition DEACTIVATION_ACTIVATION_PAIRS :: "(string \<times> string) list" where
  "DEACTIVATION_ACTIVATION_PAIRS =
     [(''mouseup'', ''mousedown''), (''pointerup'', ''pointerdown''),
      (''touchend'', ''touchstart''), (''keyup'', ''keydown''), (''blur'', ''focus'')]"

definition listenerInfos :: "(listener \<times> string) list list" where
  "listenerInfos =
     [[(L_activate, ''touchstart''), (L_deactivate, ''touchend'')],
      [(L_activate, ''pointerdown''), (L_deactivate, ''pointerup'')],
      [(L_activate, ''mousedown''), (L_deactivate, ''mouseup'')],
      [(L_activate, ''keydown''), (L_deactivate, ''keyup'')],
      [(L_focus, ''focus''), (L_blur, ''blur'')]]"

definition defaultActivationState :: activation_state where
  "defaultActivationState =
     \<lparr>isActivated = False, wasActivatedByPointer = False, wasElementMadeActive = False,
      activationStartTime = 0, activationEvent = None\<rparr>"

definition constructor :: foundation where
  "constructor =
     \<lparr>layoutFrame = 0, frame = \<lparr>left = 0, top = 0, width = 0, height = 0\<rparr>,
      activationState = 0, xfDuration = Fin 0, initialSize = Fin 0, maxRadius = Fin 0,
      unboundedOpacityFadeTimer = 0, cancelBgBounded = Noop, cancelFgBounded = Noop,
      cancelFgUnbounded = Noop, unboundedCoords = (Fin 0, Fin 0), fgScale = Fin 0,
      heap = (\<lambda>_. defaultActivationState), next_ref = 1, frames = [], next_handle = 1,
      timers = [], next_timer = 1, calls = []\<rparr>"

subsection \<open>Scheduling and the trace\<close>

definition emit :: "call \<Rightarrow> foundation \<Rightarrow> foundation" where
  "emit c f = f\<lparr>calls := calls f @ [c]\<rparr>"

definition requestAnimationFrame :: "frameCallback \<Rightarrow> foundation \<Rightarrow> nat \<times> foundation" where
  "requestAnimationFrame cb f =
     (next_handle f,
      f\<lparr>frames := frames f @ [(next_handle f, cb)], next_handle := Suc (next_handle f)\<rparr>)"

definition cancelAnimationFrame :: "nat \<Rightarrow> foundation \<Rightarrow> foundation" where
  "cancelAnimationFrame h f = f\<lparr>frames := filter (\<lambda>p. fst p \<noteq> h) (frames f)\<rparr>"

definition setTimeout :: "jsnum \<Rightarrow> foundation \<Rightarrow> nat \<times> foundation" where
  "setTimeout d f =
     (next_timer f,
      f\<lparr>timers := timers f @ [(next_timer f, d)], next_timer := Suc (next_timer f)\<rparr>)"

definition clearTimeout :: "nat \<Rightarrow> foundation \<Rightarrow> foundation" where
  "clearTimeout i f = f\<lparr>timers := filter (\<lambda>p. fst p \<noteq> i) (timers f)\<rparr>"

text \<open>The object \<^verbatim>\<open>this.activationState_\<close> refers to.\<close>

definition current :: "foundation \<Rightarrow> activation_state" where
  "current f = heap f (activationState f)"

text \<open>\<^verbatim>\<open>this.activationState_ = this.defaultActivationState_()\<close>: a new object.\<close>

definition resetActivationState :: "foundation \<Rightarrow> foundation" where
  "resetActivationState f =
     f\<lparr>heap := (heap f)(next_ref f := defaultActivationState),
       activationState := next_ref f, next_ref := Suc (next_ref f)\<rparr>"

definition call_cancel :: "cancel \<Rightarrow> foundation \<Rightarrow> foundation" where
  "call_cancel c f = (case c of Noop \<Rightarrow> f | Cancel cls ev \<Rightarrow> emit (CallCancel cls ev) f)"

subsection \<open>Layout\<close>

definition updateLayoutCssVars :: "env \<Rightarrow> foundation \<Rightarrow> foundation" where
  "updateLayoutCssVars env f =
     (let f = emit (UpdateCssVariable VAR_SURFACE_WIDTH (Px (Fin (width (frame f))))) f;
          f = emit (UpdateCssVariable VAR_SURFACE_HEIGHT (Px (Fin (height (frame f))))) f;
          f = emit (UpdateCssVariable VAR_FG_SIZE (Px (initialSize f))) f;
          f = emit (UpdateCssVariable VAR_FG_UNBOUNDED_TRANSFORM_DURATION (Ms (xfDuration f))) f;
          f = emit (UpdateCssVariable VAR_FG_SCALE (Plain (fgScale f))) f;
          f = emit IsUnbounded f
      in if isUnbounded env then
           (let f = f\<lparr>unboundedCoords :=
                  (js_round (js_sub (js_div (Fin (width (frame f))) (Fin 2))
                                    (js_div (initialSize f) (Fin 2))),
                   js_round (js_sub (js_div (Fin (height (frame f))) (Fin 2))
                                    (js_div (initialSize f) (Fin 2))))\<rparr>;
                f = emit (UpdateCssVariable VAR_LEFT (Px (fst (unboundedCoords f)))) f
            in emit (UpdateCssVariable VAR_TOP (Px (snd (unboundedCoords f)))) f)
         else f)"

definition layoutInternal :: "numbers \<Rightarrow> env \<Rightarrow> foundation \<Rightarrow> foundation" where
  "layoutInternal n env f =
     (let f = (emit ComputeBoundingRect f)\<lparr>frame := computeBoundingRect env\<rparr>;
          maxDim = js_max (Fin (height (frame f))) (Fin (width (frame f)));
          surfaceDiameter = js_sqrt (Fin ((width (frame f))\<^sup>2 + (height (frame f))\<^sup>2));
          f = f\<lparr>initialSize := js_mul maxDim (Fin (INITIAL_ORIGIN_SCALE n))\<rparr>;
          f = f\<lparr>maxRadius := js_add surfaceDiameter (Fin (PADDING n))\<rparr>;
          f = f\<lparr>fgScale := js_div (maxRadius f) (initialSize f)\<rparr>;
          f = f\<lparr>xfDuration := js_mul (Fin 1000) (js_sqrt (js_div (maxRadius f) (Fin 1024)))\<rparr>
      in updateLayoutCssVars env f)"

definition layout :: "foundation \<Rightarrow> foundation" where
  "layout f =
     (let f = (if layoutFrame f \<noteq> 0 then cancelAnimationFrame (layoutFrame f) f else f);
          (h, f) = requestAnimationFrame LayoutCallback f
      in f\<lparr>layoutFrame := h\<rparr>)"

subsection \<open>Initialisation and teardown\<close>

definition addEventListeners :: "foundation \<Rightarrow> foundation" where
  "addEventListeners f =
     emit RegisterResizeHandler
       (foldl (\<lambda>g (k, t). emit (RegisterInteractionHandler t k) g) f (concat listenerInfos))"

definition removeEventListeners :: "foundation \<Rightarrow> foundation" where
  "removeEventListeners f =
     emit DeregisterResizeHandler
       (foldl (\<lambda>g (k, t). emit (DeregisterInteractionHandler t k) g) f (concat listenerInfos))"

text \<open>The getter \<^verbatim>\<open>isSupported_\<close>: each read calls the adapter.\<close>

definition isSupported :: "env \<Rightarrow> foundation \<Rightarrow> bool \<times> foundation" where
  "isSupported env f = (browserSupportsCssVars env, emit BrowserSupportsCssVars f)"

definition init :: "env \<Rightarrow> foundation \<Rightarrow> foundation" where
  "init env f =
     (let (supported, f) = isSupported env f
      in if \<not> supported then f
         else snd (requestAnimationFrame InitCallback (addEventListeners f)))"

definition destroy :: "env \<Rightarrow> foundation \<Rightarrow> foundation" where
  "destroy env f =
     (let (supported, f) = isSupported env f
      in if \<not> supported then f
         else snd (requestAnimationFrame DestroyCallback (removeEventListeners f)))"

text \<open>
  \<^verbatim>\<open>removeCssVars_\<close> walks the keys of the missing \<^verbatim>\<open>strings\<close> that start with \<^verbatim>\<open>VAR_\<close>; the
  keys taken here are the ones the foundation refers to.
\<close>

definition removeCssVars :: "foundation \<Rightarrow> foundation" where
  "removeCssVars f =
     foldl (\<lambda>g v. emit (UpdateCssVariable v Null) g) f
       [VAR_SURFACE_WIDTH, VAR_SURFACE_HEIGHT, VAR_FG_SIZE, VAR_FG_UNBOUNDED_OPACITY_DURATION,
        VAR_FG_UNBOUNDED_TRANSFORM_DURATION, VAR_LEFT, VAR_TOP, VAR_FG_SCALE, VAR_FG_APPROX_XF,
        VAR_FG_TRANSLATE_START, VAR_FG_TRANSLATE_END]"

subsection \<open>Activation\<close>

definition activate :: "env \<Rightarrow> foundation \<Rightarrow> event \<Rightarrow> foundation" where
  "activate env f e =
     (let r = activationState f
      in if isActivated (heap f r) then f
         else
           (let f = f\<lparr>heap := (heap f)(r := (heap f r)\<lparr>isActivated := True\<rparr>)\<rparr>;
                f = f\<lparr>heap := (heap f)(r := (heap f r)\<lparr>activationEvent := Some e\<rparr>)\<rparr>;
                f = f\<lparr>heap := (heap f)(r := (heap f r)\<lparr>wasActivatedByPointer :=
                        (type e = ''mousedown'' \<or> type e = ''touchstart''
                         \<or> type e = ''pointerdown'')\<rparr>)\<rparr>;
                f = f\<lparr>heap := (heap f)(r := (heap f r)\<lparr>activationStartTime := now env\<rparr>)\<rparr>
            in snd (requestAnimationFrame (ActivateCallback e r) f)))"

definition animateUnboundedActivation :: "foundation \<Rightarrow> foundation" where
  "animateUnboundedActivation f = emit (AddClass FG_UNBOUNDED_ACTIVATION) f"

definition animateActivation :: "env \<Rightarrow> foundation \<Rightarrow> foundation" where
  "animateActivation env f =
     (let f = foldl (\<lambda>g c. emit (RemoveClass c) g) f
                [BG_BOUNDED_ACTIVE_FILL, FG_UNBOUNDED_DEACTIVATION, FG_BOUNDED_ACTIVE_FILL];
          f = call_cancel (cancelBgBounded f) f;
          f = call_cancel (cancelFgBounded f) f;
          f = call_cancel (cancelFgUnbounded f) f;
          f = (if unboundedOpacityFadeTimer f \<noteq> 0
               then (clearTimeout (unboundedOpacityFadeTimer f) f)\<lparr>unboundedOpacityFadeTimer := 0\<rparr>
               else f);
          f = emit (AddClass BG_ACTIVE) f;
          f = emit IsUnbounded f
      in if isUnbounded env then animateUnboundedActivation f else f)"

text \<open>The frame callback of \<^verbatim>\<open>activate_\<close>; \<open>r\<close> is the object the closure captured.\<close>

definition activateCallback :: "env \<Rightarrow> event \<Rightarrow> nat \<Rightarrow> foundation \<Rightarrow> foundation" where
  "activateCallback env e r f =
     (let (made, f) = (if type e = ''keydown'' then (isSurfaceActive env, emit IsSurfaceActive f)
                       else (True, f));
          f = f\<lparr>heap := (heap f)(r := (heap f r)\<lparr>wasElementMadeActive := made\<rparr>)\<rparr>
      in if wasElementMadeActive (heap f r) then animateActivation env f
         else resetActivationState f)"

subsection \<open>Deactivation\<close>

record deactivationInfo =
  transformDuration :: jsnum
  opacityDuration :: jsnum
  approxCurScale :: jsnum

text \<open>The local \<^verbatim>\<open>approxOpacity\<close> of \<^verbatim>\<open>getUnboundedDeactivationInfo_\<close>.\<close>

definition approxOpacity :: "numbers \<Rightarrow> int \<Rightarrow> jsnum" where
  "approxOpacity n msElapsed =
     js_min (js_div (Fin (of_int msElapsed)) (Fin (ACTIVE_OPACITY_DURATION_MS n))) (Fin 1)"

definition getUnboundedDeactivationInfo ::
  "numbers \<Rightarrow> env \<Rightarrow> foundation \<Rightarrow> int \<Rightarrow> deactivationInfo" where
  "getUnboundedDeactivationInfo n env f start =
     (let msElapsed = now env - start;
          approxCurScale =
            (if of_int msElapsed > FG_TRANSFORM_DELAY_MS n then
               (let percentComplete =
                      js_min (js_div (js_sub (Fin (of_int msElapsed)) (Fin (FG_TRANSFORM_DELAY_MS n)))
                                     (xfDuration f)) (Fin 1)
                in js_mul percentComplete (fgScale f))
             else Fin 0);
          transformDuration = Fin (UNBOUNDED_TRANSFORM_DURATION_MS n);
          opacityDuration =
            js_max (Fin (MIN_OPACITY_DURATION_MS n))
                   (js_div (js_mul (Fin 1000) (approxOpacity n msElapsed))
                           (Fin (OPACITY_DURATION_DIVISOR n)))
      in \<lparr>transformDuration = transformDuration, opacityDuration = opacityDuration,
          approxCurScale = approxCurScale\<rparr>)"

definition animateUnboundedDeactivation :: "deactivationInfo \<Rightarrow> foundation \<Rightarrow> foundation" where
  "animateUnboundedDeactivation i f =
     (let f = emit (UpdateCssVariable VAR_FG_APPROX_XF (Scale (approxCurScale i))) f;
          f = emit (UpdateCssVariable VAR_FG_UNBOUNDED_OPACITY_DURATION (Ms (opacityDuration i))) f;
          f = emit (UpdateCssVariable VAR_FG_UNBOUNDED_TRANSFORM_DURATION
                      (Ms (transformDuration i))) f;
          f = emit (AddClass FG_UNBOUNDED_DEACTIVATION) f;
          f = emit (RemoveClass FG_UNBOUNDED_ACTIVATION) f;
          (t, f) = setTimeout (opacityDuration i) f
      in f\<lparr>unboundedOpacityFadeTimer := t\<rparr>)"

definition animateBoundedDeactivation :: "env \<Rightarrow> event \<Rightarrow> bool \<Rightarrow> foundation \<Rightarrow> foundation" where
  "animateBoundedDeactivation env e isPointerEvent f =
     (let (startPoint, f) =
            (if isPointerEvent then
               (let f = emit GetWindowPageOffset f;
                    f = emit ComputeBoundingRect f;
                    p = getNormalizedEventCoords env e (getWindowPageOffset env)
                          (computeBoundingRect env)
                in ((Fin (fst p), Fin (snd p)), f))
             else ((js_div (Fin (width (frame f))) (Fin 2),
                    js_div (Fin (height (frame f))) (Fin 2)), f));
          startPoint = (js_sub (fst startPoint) (js_div (initialSize f) (Fin 2)),
                        js_sub (snd startPoint) (js_div (initialSize f) (Fin 2)));
          endPoint = (js_sub (js_div (Fin (width (frame f))) (Fin 2)) (js_div (initialSize f) (Fin 2)),
                      js_sub (js_div (Fin (height (frame f))) (Fin 2)) (js_div (initialSize f) (Fin 2)));
          f = emit (UpdateCssVariable VAR_FG_TRANSLATE_START
                      (Translate (fst startPoint) (snd startPoint))) f;
          f = emit (UpdateCssVariable VAR_FG_TRANSLATE_END
                      (Translate (fst endPoint) (snd endPoint))) f;
          f = (emit (AnimateWithClass BG_BOUNDED_ACTIVE_FILL (CorrectEventName ''transitionend'')) f)
                \<lparr>cancelBgBounded := Cancel BG_BOUNDED_ACTIVE_FILL (CorrectEventName ''transitionend'')\<rparr>
      in (emit (AnimateWithClass FG_BOUNDED_ACTIVE_FILL (CorrectEventName ''animationend'')) f)
           \<lparr>cancelFgBounded := Cancel FG_BOUNDED_ACTIVE_FILL (CorrectEventName ''animationend'')\<rparr>)"

definition animateDeactivation ::
  "numbers \<Rightarrow> env \<Rightarrow> event \<Rightarrow> activation_state \<Rightarrow> foundation \<Rightarrow> foundation" where
  "animateDeactivation n env e st f =
     (if wasActivatedByPointer st \<or> wasElementMadeActive st then
        (let f = emit (RemoveClass BG_ACTIVE) f;
             isPointerEvent = (type e = ''touchend'' \<or> type e = ''pointerup'' \<or> type e = ''mouseup'');
             f = emit IsUnbounded f
         in if isUnbounded env
            then animateUnboundedDeactivation
                   (getUnboundedDeactivationInfo n env f (activationStartTime st)) f
            else animateBoundedDeactivation env e isPointerEvent f)
      else f)"

text \<open>
  \<^verbatim>\<open>deactivate_\<close>. Reading \<^verbatim>\<open>.type\<close> of a null \<^verbatim>\<open>activationEvent\<close> throws; the snapshot
  \<^verbatim>\<open>Object.assign({}, this.activationState_)\<close> is a copy by value.
\<close>

definition deactivate :: "env \<Rightarrow> foundation \<Rightarrow> event \<Rightarrow> error + foundation" where
  "deactivate env f e =
     (let st = heap f (activationState f)
      in if \<not> isActivated st then Inr f
         else case activationEvent st of
           None \<Rightarrow> Inl TypeError
         | Some a \<Rightarrow>
             (let actualActivationType = map_of DEACTIVATION_ACTIVATION_PAIRS (type e);
                  expectedActivationType = type a;
                  needsDeactivationUX = (actualActivationType = Some expectedActivationType);
                  needsActualDeactivation =
                    (if wasActivatedByPointer st then type e = ''mouseup''
                     else needsDeactivationUX);
                  state = heap f (activationState f);
                  f = (if needsDeactivationUX
                       then snd (requestAnimationFrame (DeactivateCallback e state) f) else f);
                  f = (if needsActualDeactivation then resetActivationState f else f)
              in Inr f))"

subsection \<open>The event loop\<close>

fun run_callback :: "numbers \<Rightarrow> env \<Rightarrow> frameCallback \<Rightarrow> foundation \<Rightarrow> foundation" where
  "run_callback n env InitCallback f =
     (let f = emit (AddClass ROOT) f;
          f = emit IsUnbounded f;
          f = (if isUnbounded env then emit (AddClass UNBOUNDED) f else f)
      in layoutInternal n env f)"
| "run_callback n env (ActivateCallback e r) f = activateCallback env e r f"
| "run_callback n env (DeactivateCallback e st) f = animateDeactivation n env e st f"
| "run_callback n env DestroyCallback f =
     removeCssVars (emit (RemoveClass UNBOUNDED) (emit (RemoveClass ROOT) f))"
| "run_callback n env LayoutCallback f = (layoutInternal n env f)\<lparr>layoutFrame := 0\<rparr>"
| "run_callback n env FocusCallback f = emit (AddClass BG_ACTIVE) f"
| "run_callback n env BlurCallback f = emit (RemoveClass BG_ACTIVE) f"

text \<open>
  One render frame: the callbacks pending at its start run in the order they were requested,
  and the adapter gives the same answers to all of them.
\<close>

definition run_frame :: "numbers \<Rightarrow> env \<Rightarrow> foundation \<Rightarrow> foundation" where
  "run_frame n env f =
     foldl (\<lambda>g p. run_callback n env (snd p) g) (f\<lparr>frames := []\<rparr>) (frames f)"

text \<open>A pending timeout fires: the callback of \<^verbatim>\<open>animateUnboundedDeactivation_\<close>, line 260.\<close>

definition fire_timeout :: "nat \<Rightarrow> foundation \<Rightarrow> foundation" where
  "fire_timeout i f =
     (if i \<in> fst ` set (timers f)
      then emit (RemoveClass FG_UNBOUNDED_DEACTIVATION) (clearTimeout i f) else f)"

text \<open>
  The handlers the adapter holds for an event type, read off the trace: a registration adds
  the handler unless it is there already, a deregistration removes it.
\<close>

fun register_step :: "string \<Rightarrow> listener list \<Rightarrow> call \<Rightarrow> listener list" where
  "register_step t hs (RegisterInteractionHandler t' k) =
     (if t' = t \<and> k \<notin> set hs then hs @ [k] else hs)"
| "register_step t hs (DeregisterInteractionHandler t' k) =
     (if t' = t then removeAll k hs else hs)"
| "register_step t hs _ = hs"

definition registered :: "call list \<Rightarrow> string \<Rightarrow> listener list" where
  "registered cs t = foldl (register_step t) [] cs"

text \<open>The four entries of \<^verbatim>\<open>listeners_\<close>.\<close>

fun listeners :: "listener \<Rightarrow> env \<Rightarrow> event \<Rightarrow> foundation \<Rightarrow> error + foundation" where
  "listeners L_activate env e f = Inr (activate env f e)"
| "listeners L_deactivate env e f = deactivate env f e"
| "listeners L_focus env e f = Inr (snd (requestAnimationFrame FocusCallback f))"
| "listeners L_blur env e f = Inr (snd (requestAnimationFrame BlurCallback f))"

fun call_listeners :: "listener list \<Rightarrow> env \<Rightarrow> event \<Rightarrow> foundation \<Rightarrow> error + foundation" where
  "call_listeners [] env e f = Inr f"
| "call_listeners (k # ks) env e f =
     (case listeners k env e f of Inl err \<Rightarrow> Inl err | Inr g \<Rightarrow> call_listeners ks env e g)"

text \<open>
  An event of the surface reaches the handlers registered for its type, in the order of their
  registration; a handler that throws ends the turn.
\<close>

definition dispatch :: "env \<Rightarrow> event \<Rightarrow> foundation \<Rightarrow> error + foundation" where
  "dispatch env e f = call_listeners (registered (calls f) (type e)) env e f"

text \<open>
  The states of a foundation: made by the constructor and changed by the public methods, by
  the handlers (called directly or through the adapter), by frames and by timeouts.
\<close>

inductive reachable :: "numbers \<Rightarrow> foundation \<Rightarrow> bool" for n :: numbers where
  r_constructor: "reachable n constructor"
| r_init: "reachable n f \<Longrightarrow> reachable n (init env f)"
| r_destroy: "reachable n f \<Longrightarrow> reachable n (destroy env f)"
| r_layout: "reachable n f \<Longrightarrow> reachable n (layout f)"
| r_activate: "reachable n f \<Longrightarrow> reachable n (activate env f e)"
| r_deactivate: "reachable n f \<Longrightarrow> deactivate env f e = Inr g \<Longrightarrow> reachable n g"
| r_dispatch: "reachable n f \<Longrightarrow> dispatch env e f = Inr g \<Longrightarrow> reachable n g"
| r_frame: "reachable n f \<Longrightarrow> reachable n (run_frame n env f)"
| r_timeout: "reachable n f \<Longrightarrow> reachable n (fire_timeout i f)"

text \<open>
  What holds of every state: the store has only at-rest objects and activated objects that carry
  their event, and a pending activation callback refers to an activated object.
\<close>

definition state_ok :: "foundation \<Rightarrow> bool" where
  "state_ok f \<longleftrightarrow>
     activationState f < next_ref f
     \<and> (\<forall>r. isActivated (heap f r) \<longrightarrow> activationEvent (heap f r) \<noteq> None)
     \<and> (\<forall>r. \<not> isActivated (heap f r) \<longrightarrow> heap f r = defaultActivationState)"

definition callbacks_ok :: "foundation \<Rightarrow> frameCallback list \<Rightarrow> bool" where
  "callbacks_ok f cbs \<longleftrightarrow>
     (\<forall>e r. ActivateCallback e r \<in> set cbs \<longrightarrow> r < next_ref f \<and> isActivated (heap f r))"

definition registrations_ok :: "call list \<Rightarrow> bool" where
  "registrations_ok cs \<longleftrightarrow>
     (\<forall>t k. RegisterInteractionHandler t k \<in> set cs \<longrightarrow> (k, t) \<in> set (concat listenerInfos))"

section \<open>A surface to run the foundation on\<close>

text \<open>
  Modelled from the spec: \<^verbatim>\<open>getNormalizedEventCoords\<close> of \<^verbatim>\<open>./util\<close>, which is missing. The
  spec calls its result the point of interaction on the surface; it is taken to be the page
  position of the event relative to the surface's position in the page.
\<close>

definition pointer_coords :: "event \<Rightarrow> real \<times> real \<Rightarrow> ClientRect \<Rightarrow> real \<times> real" where
  "pointer_coords e off r = (pageX e - (fst off + left r), pageY e - (snd off + top r))"

text \<open>A bounded surface of the given size at the page origin, pressed (for key events).\<close>

definition surface :: "real \<Rightarrow> real \<Rightarrow> env" where
  "surface w h =
     \<lparr>browserSupportsCssVars = True, isUnbounded = False, isSurfaceActive = True,
      computeBoundingRect = \<lparr>left = 0, top = 0, width = w, height = h\<rparr>,
      getWindowPageOffset = (0, 0), getNormalizedEventCoords = pointer_coords, now = 0\<rparr>"

definition event_at :: "string \<Rightarrow> real \<Rightarrow> real \<Rightarrow> event" where
  "event_at t a b = \<lparr>type = t, pageX = a, pageY = b\<rparr>"

definition and_then ::
  "error + foundation \<Rightarrow> (foundation \<Rightarrow> error + foundation) \<Rightarrow> error + foundation" where
  "and_then r k = (case r of Inl err \<Rightarrow> Inl err | Inr f \<Rightarrow> k f)"

text \<open>The adapter calls of a run, and the callbacks it leaves pending.\<close>

definition trace :: "error + foundation \<Rightarrow> call list" where
  "trace r = (case r of Inl err \<Rightarrow> [] | Inr f \<Rightarrow> calls f)"

definition pending :: "error + foundation \<Rightarrow> frameCallback list" where
  "pending r = (case r of Inl err \<Rightarrow> [] | Inr f \<Rightarrow> map snd (frames f))"

text \<open>
  The scenario of the spec: a bounded surface of 100 by 50 is initialised and laid out, the
  mouse goes down at (10, 10), a frame passes, the mouse goes up at (10, 10), a frame passes.
\<close>

definition laid_out :: foundation where
  "laid_out = run_frame constants (surface 100 50) (init (surface 100 50) constructor)"

definition pressed :: "error + foundation" where
  "pressed = and_then (dispatch (surface 100 50) (event_at ''mousedown'' 10 10) laid_out)
               (\<lambda>f. Inr (run_frame constants (surface 100 50) f))"

definition released :: "error + foundation" where
  "released = and_then pressed (dispatch (surface 100 50) (event_at ''mouseup'' 10 10))"

definition press_and_release :: "error + foundation" where
  "press_and_release = and_then released (\<lambda>f. Inr (run_frame constants (surface 100 50) f))"

section \<open>Auxiliary notions for the proofs\<close>

text \<open>
  The part of a state that the activation state machine and the scheduler of frame callbacks
  depend on.
\<close>

definition core :: "foundation \<Rightarrow> (nat \<Rightarrow> activation_state) \<times> nat \<times> nat \<times> (nat \<times> frameCallback) list \<times> nat" where
  "core f = (heap f, activationState f, next_ref f, frames f, next_handle f)"

text \<open>
  The calls that matter for the registered handlers and for the capability query; every other
  call is quiet.
\<close>

fun quiet :: "call \<Rightarrow> bool" where
  "quiet BrowserSupportsCssVars = False"
| "quiet (RegisterInteractionHandler t k) = False"
| "quiet _ = True"

definition loud :: "foundation \<Rightarrow> call list" where
  "loud f = filter (\<lambda>c. \<not> quiet c) (calls f)"

text \<open>What calling a cancel function adds to the trace.\<close>

definition cancel_calls :: "cancel \<Rightarrow> call list" where
  "cancel_calls c = (case c of Noop \<Rightarrow> [] | Cancel cls nm \<Rightarrow> [CallCancel cls nm])"

text \<open>The invariant of the reachable states.\<close>

definition all_ok :: "foundation \<Rightarrow> bool" where
  "all_ok f \<longleftrightarrow> state_ok f \<and> callbacks_ok f (map snd (frames f)) \<and> registrations_ok (loud f)"

section \<open>Frame conditions\<close>

lemma emit_sel [simp]:
  "layoutFrame (emit c f) = layoutFrame f" "frame (emit c f) = frame f"
  "activationState (emit c f) = activationState f" "xfDuration (emit c f) = xfDuration f"
  "initialSize (emit c f) = initialSize f" "maxRadius (emit c f) = maxRadius f"
  "unboundedOpacityFadeTimer (emit c f) = unboundedOpacityFadeTimer f"
  "cancelBgBounded (emit c f) = cancelBgBounded f" "cancelFgBounded (emit c f) = cancelFgBounded f"
  "cancelFgUnbounded (emit c f) = cancelFgUnbounded f" "unboundedCoords (emit c f) = unboundedCoords f"
  "fgScale (emit c f) = fgScale f" "heap (emit c f) = heap f" "next_ref (emit c f) = next_ref f"
  "frames (emit c f) = frames f" "next_handle (emit c f) = next_handle f"
  "timers (emit c f) = timers f" "next_timer (emit c f) = next_timer f"
  "calls (emit c f) = calls f @ [c]"
  by (simp_all add: emit_def)

lemma core_upd [simp]:
  "core (f\<lparr>layoutFrame := a1\<rparr>) = core f" "core (f\<lparr>frame := a2\<rparr>) = core f"
  "core (f\<lparr>xfDuration := a3\<rparr>) = core f" "core (f\<lparr>initialSize := a4\<rparr>) = core f"
  "core (f\<lparr>maxRadius := a5\<rparr>) = core f" "core (f\<lparr>unboundedOpacityFadeTimer := a6\<rparr>) = core f"
  "core (f\<lparr>cancelBgBounded := a7\<rparr>) = core f" "core (f\<lparr>cancelFgBounded := a8\<rparr>) = core f"
  "core (f\<lparr>cancelFgUnbounded := a9\<rparr>) = core f" "core (f\<lparr>unboundedCoords := b1\<rparr>) = core f"
  "core (f\<lparr>fgScale := b2\<rparr>) = core f" "core (f\<lparr>timers := b3\<rparr>) = core f"
  "core (f\<lparr>next_timer := b4\<rparr>) = core f" "core (f\<lparr>calls := b5\<rparr>) = core f"
  by (simp_all add: core_def)

lemma loud_upd [simp]:
  "loud (f\<lparr>layoutFrame := a1\<rparr>) = loud f" "loud (f\<lparr>frame := a2\<rparr>) = loud f"
  "loud (f\<lparr>xfDuration := a3\<rparr>) = loud f" "loud (f\<lparr>initialSize := a4\<rparr>) = loud f"
  "loud (f\<lparr>maxRadius := a5\<rparr>) = loud f" "loud (f\<lparr>unboundedOpacityFadeTimer := a6\<rparr>) = loud f"
  "loud (f\<lparr>cancelBgBounded := a7\<rparr>) = loud f" "loud (f\<lparr>cancelFgBounded := a8\<rparr>) = loud f"
  "loud (f\<lparr>cancelFgUnbounded := a9\<rparr>) = loud f" "loud (f\<lparr>unboundedCoords := b1\<rparr>) = loud f"
  "loud (f\<lparr>fgScale := b2\<rparr>) = loud f" "loud (f\<lparr>timers := b3\<rparr>) = loud f"
  "loud (f\<lparr>next_timer := b4\<rparr>) = loud f" "loud (f\<lparr>heap := b5\<rparr>) = loud f"
  "loud (f\<lparr>activationState := b6\<rparr>) = loud f" "loud (f\<lparr>next_ref := b7\<rparr>) = loud f"
  "loud (f\<lparr>frames := b8\<rparr>) = loud f" "loud (f\<lparr>next_handle := b9\<rparr>) = loud f"
  by (simp_all add: loud_def)

lemma core_emit [simp]: "core (emit c f) = core f"
  by (simp add: core_def)

lemma loud_emit [simp]: "loud (emit c f) = (if quiet c then loud f else loud f @ [c])"
  by (simp add: loud_def)

lemma core_clearTimeout [simp]: "core (clearTimeout i f) = core f"
  by (simp add: clearTimeout_def)

lemma loud_clearTimeout [simp]: "loud (clearTimeout i f) = loud f"
  by (simp add: clearTimeout_def)

lemma calls_clearTimeout [simp]: "calls (clearTimeout i f) = calls f"
  by (simp add: clearTimeout_def)

lemma core_setTimeout [simp]: "core (snd (setTimeout d f)) = core f"
  by (simp add: setTimeout_def)

lemma loud_setTimeout [simp]: "loud (snd (setTimeout d f)) = loud f"
  by (simp add: setTimeout_def)

lemma core_call_cancel [simp]: "core (call_cancel c f) = core f"
  by (simp add: call_cancel_def split: cancel.split)

lemma loud_call_cancel [simp]: "loud (call_cancel c f) = loud f"
  by (simp add: call_cancel_def split: cancel.split)

lemma calls_call_cancel [simp]: "calls (call_cancel c f) = calls f @ cancel_calls c"
  by (simp add: call_cancel_def cancel_calls_def split: cancel.split)

lemma sel_call_cancel [simp]:
  "cancelBgBounded (call_cancel c f) = cancelBgBounded f"
  "cancelFgBounded (call_cancel c f) = cancelFgBounded f"
  "cancelFgUnbounded (call_cancel c f) = cancelFgUnbounded f"
  "unboundedOpacityFadeTimer (call_cancel c f) = unboundedOpacityFadeTimer f"
  "timers (call_cancel c f) = timers f"
  by (simp_all add: call_cancel_def split: cancel.split)

lemma core_updateLayoutCssVars [simp]: "core (updateLayoutCssVars env f) = core f"
  by (simp add: updateLayoutCssVars_def Let_def)

lemma loud_updateLayoutCssVars [simp]: "loud (updateLayoutCssVars env f) = loud f"
  by (simp add: updateLayoutCssVars_def Let_def)

lemma core_layoutInternal [simp]: "core (layoutInternal n env f) = core f"
  by (simp add: layoutInternal_def Let_def)

lemma loud_layoutInternal [simp]: "loud (layoutInternal n env f) = loud f"
  by (simp add: layoutInternal_def Let_def)

lemma core_animateActivation [simp]: "core (animateActivation env f) = core f"
  by (simp add: animateActivation_def animateUnboundedActivation_def Let_def)

lemma loud_animateActivation [simp]: "loud (animateActivation env f) = loud f"
  by (simp add: animateActivation_def animateUnboundedActivation_def Let_def)

lemma calls_animateActivation:
  "calls (animateActivation env f) =
     calls f @ [RemoveClass BG_BOUNDED_ACTIVE_FILL, RemoveClass FG_UNBOUNDED_DEACTIVATION,
                RemoveClass FG_BOUNDED_ACTIVE_FILL]
       @ cancel_calls (cancelBgBounded f) @ cancel_calls (cancelFgBounded f)
       @ cancel_calls (cancelFgUnbounded f) @ [AddClass BG_ACTIVE, IsUnbounded]
       @ (if isUnbounded env then [AddClass FG_UNBOUNDED_ACTIVATION] else [])"
  by (simp add: animateActivation_def animateUnboundedActivation_def Let_def)

lemma timers_animateActivation:
  "set (timers (animateActivation env f)) \<subseteq> set (timers f)"
  by (auto simp add: animateActivation_def animateUnboundedActivation_def Let_def clearTimeout_def)

lemma core_animateUnboundedDeactivation [simp]: "core (animateUnboundedDeactivation i f) = core f"
  by (simp add: animateUnboundedDeactivation_def Let_def setTimeout_def)

lemma loud_animateUnboundedDeactivation [simp]: "loud (animateUnboundedDeactivation i f) = loud f"
  by (simp add: animateUnboundedDeactivation_def Let_def setTimeout_def)

lemma core_animateBoundedDeactivation [simp]: "core (animateBoundedDeactivation env e p f) = core f"
  by (simp add: animateBoundedDeactivation_def Let_def)

lemma loud_animateBoundedDeactivation [simp]: "loud (animateBoundedDeactivation env e p f) = loud f"
  by (simp add: animateBoundedDeactivation_def Let_def)

lemma core_animateDeactivation [simp]: "core (animateDeactivation n env e st f) = core f"
  by (simp add: animateDeactivation_def Let_def)

lemma loud_animateDeactivation [simp]: "loud (animateDeactivation n env e st f) = loud f"
  by (simp add: animateDeactivation_def Let_def)

lemma core_removeCssVars [simp]: "core (removeCssVars f) = core f"
  by (simp add: removeCssVars_def)

lemma loud_removeCssVars [simp]: "loud (removeCssVars f) = loud f"
  by (simp add: removeCssVars_def)

lemma core_fire_timeout [simp]: "core (fire_timeout i f) = core f"
  by (simp add: fire_timeout_def)

lemma loud_fire_timeout [simp]: "loud (fire_timeout i f) = loud f"
  by (simp add: fire_timeout_def)

section \<open>Geometry\<close>

lemma updateLayoutCssVars_sel [simp]:
  "frame (updateLayoutCssVars env f) = frame f"
  "xfDuration (updateLayoutCssVars env f) = xfDuration f"
  "initialSize (updateLayoutCssVars env f) = initialSize f"
  "maxRadius (updateLayoutCssVars env f) = maxRadius f"
  "fgScale (updateLayoutCssVars env f) = fgScale f"
  by (simp_all add: updateLayoutCssVars_def Let_def)

lemma layoutInternal_metrics:
  "initialSize (layoutInternal n env f) =
     js_mul (js_max (Fin (height (computeBoundingRect env))) (Fin (width (computeBoundingRect env))))
            (Fin (INITIAL_ORIGIN_SCALE n))"
  "maxRadius (layoutInternal n env f) =
     js_add (js_sqrt (Fin ((width (computeBoundingRect env))\<^sup>2 + (height (computeBoundingRect env))\<^sup>2)))
            (Fin (PADDING n))"
  "fgScale (layoutInternal n env f) =
     js_div (maxRadius (layoutInternal n env f)) (initialSize (layoutInternal n env f))"
  "xfDuration (layoutInternal n env f) =
     js_mul (Fin 1000) (js_sqrt (js_div (maxRadius (layoutInternal n env f)) (Fin 1024)))"
  "frame (layoutInternal n env f) = computeBoundingRect env"
  by (simp_all add: layoutInternal_def Let_def)

text \<open>
  Claim C6. For every frame, the layout pass computes initialSize = 0.6 * max(width, height),
  maxRadius = sqrt(width * width + height * height) + padding, fgScale = maxRadius / initialSize when
  initialSize is positive, and xfDuration = 1000 * sqrt(maxRadius / 1024); the results depend on
  the frame and the constants only, not on the state before the pass. The origin scale is the
  0.6 of the spec and the padding is not negative.
\<close>

theorem layout_metrics:
  assumes "INITIAL_ORIGIN_SCALE n = 6 / 10" and "0 \<le> PADDING n"
  shows "let w = width (computeBoundingRect env); h = height (computeBoundingRect env);
             g = layoutInternal n env f
         in initialSize g = Fin (6 / 10 * max w h)
          \<and> maxRadius g = Fin (sqrt (w\<^sup>2 + h\<^sup>2) + PADDING n)
          \<and> (0 < max w h \<longrightarrow>
               fgScale g = Fin ((sqrt (w\<^sup>2 + h\<^sup>2) + PADDING n) / (6 / 10 * max w h)))
          \<and> xfDuration g = Fin (1000 * sqrt ((sqrt (w\<^sup>2 + h\<^sup>2) + PADDING n) / 1024))
          \<and> frame g = computeBoundingRect env"
proof -
  define w where "w = width (computeBoundingRect env)"
  define h where "h = height (computeBoundingRect env)"
  have i: "initialSize (layoutInternal n env f) = Fin (6 / 10 * max w h)"
    using assms(1) by (simp add: layoutInternal_metrics max.commute w_def h_def)
  have nn: "\<not> w\<^sup>2 + h\<^sup>2 < 0" by (simp add: not_less)
  have m: "maxRadius (layoutInternal n env f) = Fin (sqrt (w\<^sup>2 + h\<^sup>2) + PADDING n)"
    using nn by (simp add: layoutInternal_metrics w_def h_def)
  have p: "0 \<le> sqrt (w\<^sup>2 + h\<^sup>2) + PADDING n" using assms(2) by (simp add: add_nonneg_nonneg)
  have s: "0 < max w h \<Longrightarrow> fgScale (layoutInternal n env f) = Fin ((sqrt (w\<^sup>2 + h\<^sup>2) + PADDING n) / (6 / 10 * max w h))"
    by (simp add: layoutInternal_metrics(3) i m)
  have x: "xfDuration (layoutInternal n env f) = Fin (1000 * sqrt ((sqrt (w\<^sup>2 + h\<^sup>2) + PADDING n) / 1024))"
    using p by (simp add: layoutInternal_metrics(4) m not_less)
  show ?thesis
    unfolding Let_def w_def [symmetric] h_def [symmetric]
    using i m s x by (simp add: layoutInternal_metrics(5))
qed

text \<open>
  The layout pass on a frame of 4 by 3, whose diagonal is 5.
\<close>

theorem layout_metrics_witness:
  "INITIAL_ORIGIN_SCALE constants = 6 / 10 \<and> 0 \<le> PADDING constants
    \<and> initialSize (layoutInternal constants (surface 4 3) constructor) = Fin (12 / 5)
    \<and> maxRadius (layoutInternal constants (surface 4 3) constructor) = Fin 15
    \<and> fgScale (layoutInternal constants (surface 4 3) constructor) = Fin (25 / 4)
    \<and> xfDuration (layoutInternal constants (surface 4 3) constructor) = Fin (1000 * sqrt (15 / 1024))"
proof -
  have a: "INITIAL_ORIGIN_SCALE constants = 6 / 10" "0 \<le> PADDING constants"
    by (simp_all add: constants_def)
  have r: "sqrt (4\<^sup>2 + 3\<^sup>2) = 5"
    by (rule real_sqrt_unique) simp_all
  have w: "width (computeBoundingRect (surface 4 3)) = 4"
    "height (computeBoundingRect (surface 4 3)) = 3"
    by (simp_all add: surface_def)
  have p: "PADDING constants = 10" by (simp add: constants_def)
  from layout_metrics [OF a, of "surface 4 3" constructor]
  have "initialSize (layoutInternal constants (surface 4 3) constructor) = Fin (6 / 10 * max 4 3)
     \<and> maxRadius (layoutInternal constants (surface 4 3) constructor) = Fin (sqrt (4\<^sup>2 + 3\<^sup>2) + 10)
     \<and> fgScale (layoutInternal constants (surface 4 3) constructor)
         = Fin ((sqrt (4\<^sup>2 + 3\<^sup>2) + 10) / (6 / 10 * max 4 3))
     \<and> xfDuration (layoutInternal constants (surface 4 3) constructor)
         = Fin (1000 * sqrt ((sqrt (4\<^sup>2 + 3\<^sup>2) + 10) / 1024))"
    unfolding Let_def w p by simp
  then show ?thesis unfolding r using a by simp
qed

text \<open>
  Claim C2, as the code has it. On a frame of width 0 and height 0 the layout pass completes;
  initialSize is 0, but maxRadius is the padding, and, the padding being positive, fgScale is the
  quotient of the padding by zero, which is positive infinity, and xfDuration is
  1000 * sqrt(padding / 1024).
\<close>

theorem zero_frame_metrics:
  assumes "width (computeBoundingRect env) = 0" and "height (computeBoundingRect env) = 0"
    and "0 < PADDING n"
  shows "initialSize (layoutInternal n env f) = Fin 0
       \<and> maxRadius (layoutInternal n env f) = Fin (PADDING n)
       \<and> fgScale (layoutInternal n env f) = PInf
       \<and> xfDuration (layoutInternal n env f) = Fin (1000 * sqrt (PADDING n / 1024))"
proof -
  have i: "initialSize (layoutInternal n env f) = Fin 0"
    using assms(1,2) by (simp add: layoutInternal_metrics(1))
  have m: "maxRadius (layoutInternal n env f) = Fin (PADDING n)"
    using assms(1,2) by (simp add: layoutInternal_metrics(2))
  have s: "fgScale (layoutInternal n env f) = PInf"
    using assms(3) by (simp add: layoutInternal_metrics(3) i m js_signed_inf_def)
  have x: "xfDuration (layoutInternal n env f) = Fin (1000 * sqrt (PADDING n / 1024))"
    using assms(3) by (simp add: layoutInternal_metrics(4) m not_less)
  from i m s x show ?thesis by simp
qed

text \<open>
  The layout pass on the empty frame with a padding of 10.
\<close>

theorem zero_frame_metrics_witness:
  "width (computeBoundingRect (surface 0 0)) = 0 \<and> height (computeBoundingRect (surface 0 0)) = 0
   \<and> 0 < PADDING constants
   \<and> initialSize (layoutInternal constants (surface 0 0) constructor) = Fin 0
   \<and> maxRadius (layoutInternal constants (surface 0 0) constructor) = Fin 10
   \<and> fgScale (layoutInternal constants (surface 0 0) constructor) = PInf
   \<and> xfDuration (layoutInternal constants (surface 0 0) constructor) = Fin (1000 * sqrt (10 / 1024))"
proof -
  have a: "width (computeBoundingRect (surface 0 0)) = 0"
    "height (computeBoundingRect (surface 0 0)) = 0" "0 < PADDING constants"
    by (simp_all add: surface_def constants_def)
  have p: "PADDING constants = 10" by (simp add: constants_def)
  show ?thesis
    using zero_frame_metrics [OF a, of constructor] a unfolding p by simp
qed

text \<open>
  Claim C2 as stated fails: on the empty frame the four metrics are not all zero.
\<close>

theorem zero_frame_counterexample:
  "\<not> (initialSize (layoutInternal constants (surface 0 0) constructor) = Fin 0
      \<and> maxRadius (layoutInternal constants (surface 0 0) constructor) = Fin 0
      \<and> fgScale (layoutInternal constants (surface 0 0) constructor) = Fin 0
      \<and> xfDuration (layoutInternal constants (surface 0 0) constructor) = Fin 0)"
  by (simp add: layoutInternal_metrics(2) surface_def constants_def)

section \<open>The scenario of the spec\<close>

lemmas run_defs = init_def isSupported_def addEventListeners_def listenerInfos_def
  requestAnimationFrame_def emit_def constructor_def surface_def run_frame_def
  layoutInternal_def updateLayoutCssVars_def constants_def defaultActivationState_def
  laid_out_def pressed_def released_def press_and_release_def and_then_def event_at_def
  dispatch_def registered_def activate_def deactivate_def activateCallback_def
  animateActivation_def call_cancel_def animateDeactivation_def animateBoundedDeactivation_def
  pointer_coords_def DEACTIVATION_ACTIVATION_PAIRS_def resetActivationState_def
  trace_def pending_def js_sub_def

lemma sqrt_12500_nonneg: "\<not> sqrt 12500 + 10 < 0"
  by (simp add: not_less add_nonneg_nonneg)

lemma sqrt_12500_bounds: "1118 / 10 \<le> sqrt 12500" "sqrt 12500 < 11181 / 100"
proof -
  show "1118 / 10 \<le> sqrt 12500"
    by (rule real_le_rsqrt) (simp add: power2_eq_square)
  show "sqrt 12500 < 11181 / 100"
    by (rule real_less_lsqrt) (simp_all add: power2_eq_square)
qed

lemma laid_out_initialSize: "initialSize laid_out = Fin 60"
  by (simp add: run_defs sqrt_12500_nonneg Let_def cong: let_weak_cong)

lemma laid_out_maxRadius: "maxRadius laid_out = Fin (sqrt 12500 + 10)"
  by (simp add: run_defs sqrt_12500_nonneg Let_def cong: let_weak_cong)

lemma released_pending:
  "pending released =
     [DeactivateCallback (event_at ''mouseup'' 10 10)
        \<lparr>isActivated = True, wasActivatedByPointer = True, wasElementMadeActive = True,
         activationStartTime = 0, activationEvent = Some (event_at ''mousedown'' 10 10)\<rparr>]"
  by (simp add: run_defs sqrt_12500_nonneg Let_def cong: let_weak_cong)

lemma released_trace_length: "length (trace released) = 26"
  by (simp add: run_defs sqrt_12500_nonneg Let_def cong: let_weak_cong)

lemma press_and_release_trace:
  "drop 26 (trace press_and_release) =
     [RemoveClass BG_ACTIVE, IsUnbounded, GetWindowPageOffset, ComputeBoundingRect,
      UpdateCssVariable VAR_FG_TRANSLATE_START (Translate (Fin (- 20)) (Fin (- 20))),
      UpdateCssVariable VAR_FG_TRANSLATE_END (Translate (Fin 20) (Fin (- 5))),
      AnimateWithClass BG_BOUNDED_ACTIVE_FILL (CorrectEventName ''transitionend''),
      AnimateWithClass FG_BOUNDED_ACTIVE_FILL (CorrectEventName ''animationend'')]"
  by (simp add: run_defs sqrt_12500_nonneg Let_def cong: let_weak_cong)

text \<open>
  Claim C1, as the code has it. On the bounded surface of 100 by 50 the layout pass gives
  initialSize = 60 and maxRadius = sqrt(12500) + 10, which lies between 121.8 and 121.81. The
  mouse-up at (10, 10) leaves one deactivation callback pending, with the snapshot of the
  pointer-activated state; the frame that runs it writes the start point
  (10 - 30, 10 - 30) = (-20, -20) and the end point (50 - 30, 25 - 30) = (20, -5) and starts the
  bounded background and foreground animations.
\<close>

theorem scenario_100_50:
  "initialSize laid_out = Fin 60
   \<and> maxRadius laid_out = Fin (sqrt 12500 + 10)
   \<and> 1218 / 10 \<le> sqrt 12500 + 10 \<and> sqrt 12500 + 10 < 12181 / 100
   \<and> pending released =
       [DeactivateCallback (event_at ''mouseup'' 10 10)
          \<lparr>isActivated = True, wasActivatedByPointer = True, wasElementMadeActive = True,
           activationStartTime = 0, activationEvent = Some (event_at ''mousedown'' 10 10)\<rparr>]
   \<and> length (trace released) = 26
   \<and> drop 26 (trace press_and_release) =
       [RemoveClass BG_ACTIVE, IsUnbounded, GetWindowPageOffset, ComputeBoundingRect,
        UpdateCssVariable VAR_FG_TRANSLATE_START (Translate (Fin (10 - 30)) (Fin (10 - 30))),
        UpdateCssVariable VAR_FG_TRANSLATE_END (Translate (Fin (50 - 30)) (Fin (25 - 30))),
        AnimateWithClass BG_BOUNDED_ACTIVE_FILL (CorrectEventName ''transitionend''),
        AnimateWithClass FG_BOUNDED_ACTIVE_FILL (CorrectEventName ''animationend'')]"
  using sqrt_12500_bounds
  by (simp add: laid_out_initialSize laid_out_maxRadius released_pending
      released_trace_length press_and_release_trace)

text \<open>
  Claim C1 as stated fails: initialSize is not 30, and the points (-5, -5) and (35, 10) are
  not what the run writes.
\<close>

theorem scenario_100_50_counterexample:
  "initialSize laid_out \<noteq> Fin 30
   \<and> UpdateCssVariable VAR_FG_TRANSLATE_START (Translate (Fin (- 5)) (Fin (- 5)))
       \<notin> set (trace press_and_release)
   \<and> UpdateCssVariable VAR_FG_TRANSLATE_END (Translate (Fin 35) (Fin 10))
       \<notin> set (trace press_and_release)"
proof -
  have 1: "initialSize laid_out \<noteq> Fin 30"
    by (simp add: laid_out_initialSize)
  have 2: "UpdateCssVariable VAR_FG_TRANSLATE_START (Translate (Fin (- 5)) (Fin (- 5)))
       \<notin> set (trace press_and_release)"
    by (simp add: run_defs sqrt_12500_nonneg Let_def cong: let_weak_cong)
  have 3: "UpdateCssVariable VAR_FG_TRANSLATE_END (Translate (Fin 35) (Fin 10))
       \<notin> set (trace press_and_release)"
    by (simp add: run_defs sqrt_12500_nonneg Let_def cong: let_weak_cong)
  from 1 2 3 show ?thesis by simp
qed

section \<open>The unbounded deactivation estimate\<close>

lemma approxOpacity_eq:
  "0 < ACTIVE_OPACITY_DURATION_MS n \<Longrightarrow>
   approxOpacity n e = Fin (min (of_int e / ACTIVE_OPACITY_DURATION_MS n) 1)"
  by (simp add: approxOpacity_def)

lemma opacityDuration_eq:
  "0 < ACTIVE_OPACITY_DURATION_MS n \<Longrightarrow> 0 < OPACITY_DURATION_DIVISOR n \<Longrightarrow>
   opacityDuration (getUnboundedDeactivationInfo n env f s) =
     Fin (max (MIN_OPACITY_DURATION_MS n)
           (1000 * min (of_int (now env - s) / ACTIVE_OPACITY_DURATION_MS n) 1
              / OPACITY_DURATION_DIVISOR n))"
  by (simp add: getUnboundedDeactivationInfo_def Let_def approxOpacity_eq)

text \<open>
  Claim C7. With a positive active-opacity duration and a positive divisor, for the same
  state and activation start time: approxOpacity and opacityDuration do not decrease when the
  clock advances, approxOpacity is 1 once the elapsed time reaches the active-opacity duration,
  and opacityDuration is at least the minimum opacity duration.
\<close>

theorem unbounded_deactivation_monotone:
  assumes A: "0 < ACTIVE_OPACITY_DURATION_MS n" and D: "0 < OPACITY_DURATION_DIVISOR n"
    and le: "now env1 \<le> now env2"
  shows "js_le (approxOpacity n (now env1 - s)) (approxOpacity n (now env2 - s))
       \<and> js_le (opacityDuration (getUnboundedDeactivationInfo n env1 f s))
               (opacityDuration (getUnboundedDeactivationInfo n env2 f s))
       \<and> (ACTIVE_OPACITY_DURATION_MS n \<le> of_int (now env1 - s) \<longrightarrow>
            approxOpacity n (now env1 - s) = Fin 1)
       \<and> js_le (Fin (MIN_OPACITY_DURATION_MS n))
               (opacityDuration (getUnboundedDeactivationInfo n env1 f s))"
proof -
  let ?a = "ACTIVE_OPACITY_DURATION_MS n"
  have q: "real_of_int (now env1 - s) / ?a \<le> real_of_int (now env2 - s) / ?a"
    using A le by (simp add: divide_right_mono)
  then have m: "min (real_of_int (now env1 - s) / ?a) 1 \<le> min (real_of_int (now env2 - s) / ?a) 1"
    by (simp add: min_le_iff_disj)
  have 1: "js_le (approxOpacity n (now env1 - s)) (approxOpacity n (now env2 - s))"
    using m by (simp add: approxOpacity_eq [OF A])
  have "1000 * min (real_of_int (now env1 - s) / ?a) 1 / OPACITY_DURATION_DIVISOR n
        \<le> 1000 * min (real_of_int (now env2 - s) / ?a) 1 / OPACITY_DURATION_DIVISOR n"
    using m D by (simp add: divide_right_mono)
  then have "max (MIN_OPACITY_DURATION_MS n)
               (1000 * min (real_of_int (now env1 - s) / ?a) 1 / OPACITY_DURATION_DIVISOR n)
        \<le> max (MIN_OPACITY_DURATION_MS n)
               (1000 * min (real_of_int (now env2 - s) / ?a) 1 / OPACITY_DURATION_DIVISOR n)"
    by (intro max.mono order_refl)
  then have 2: "js_le (opacityDuration (getUnboundedDeactivationInfo n env1 f s))
               (opacityDuration (getUnboundedDeactivationInfo n env2 f s))"
    by (simp only: opacityDuration_eq [OF A D] js_le.simps)
  have 3: "?a \<le> of_int (now env1 - s) \<longrightarrow> approxOpacity n (now env1 - s) = Fin 1"
    using A by (simp add: approxOpacity_eq [OF A] min_def)
  have 4: "js_le (Fin (MIN_OPACITY_DURATION_MS n))
               (opacityDuration (getUnboundedDeactivationInfo n env1 f s))"
    by (simp add: opacityDuration_eq [OF A D])
  from 1 2 3 4 show ?thesis by simp
qed

text \<open>
  The estimate 110 ms and 220 ms after an activation at time 0.
\<close>

theorem unbounded_deactivation_monotone_witness:
  "0 < ACTIVE_OPACITY_DURATION_MS constants \<and> 0 < OPACITY_DURATION_DIVISOR constants
   \<and> now ((surface 1 1)\<lparr>now := 110\<rparr>) \<le> now ((surface 1 1)\<lparr>now := 220\<rparr>)
   \<and> ACTIVE_OPACITY_DURATION_MS constants \<le> of_int (now ((surface 1 1)\<lparr>now := 110\<rparr>) - 0)
   \<and> approxOpacity constants (now ((surface 1 1)\<lparr>now := 110\<rparr>) - 0) = Fin 1
   \<and> js_le (Fin (MIN_OPACITY_DURATION_MS constants))
        (opacityDuration (getUnboundedDeactivationInfo constants ((surface 1 1)\<lparr>now := 110\<rparr>)
           constructor 0))"
proof -
  have a: "0 < ACTIVE_OPACITY_DURATION_MS constants" "0 < OPACITY_DURATION_DIVISOR constants"
    "now ((surface 1 1)\<lparr>now := 110\<rparr>) \<le> now ((surface 1 1)\<lparr>now := 220\<rparr>)"
    by (simp_all add: constants_def)
  have b: "ACTIVE_OPACITY_DURATION_MS constants \<le> of_int (now ((surface 1 1)\<lparr>now := 110\<rparr>) - 0)"
    by (simp add: constants_def)
  show ?thesis
    using unbounded_deactivation_monotone [OF a, of 0 constructor] a b by simp
qed

section \<open>The activation state machine\<close>

text \<open>
  Claim C8. An activation event that arrives while the foundation is activated changes
  nothing: the state, the pending callbacks, the timers and the trace are the same.
\<close>

theorem activate_while_activated:
  "isActivated (current f) \<Longrightarrow> activate env f e = f"
  by (simp add: activate_def current_def)

lemma activate_constructor_current:
  "current (activate env constructor e) =
     \<lparr>isActivated = True,
      wasActivatedByPointer = (type e = ''mousedown'' \<or> type e = ''touchstart'' \<or> type e = ''pointerdown''),
      wasElementMadeActive = False, activationStartTime = now env, activationEvent = Some e\<rparr>"
  by (simp add: activate_def current_def constructor_def requestAnimationFrame_def
      defaultActivationState_def Let_def cong: let_weak_cong)

text \<open>
  A pointer-down after a touch-start on a new foundation.
\<close>

theorem activate_while_activated_witness:
  "isActivated (current (activate (surface 100 50) constructor (event_at ''touchstart'' 10 10)))
   \<and> activate (surface 100 50)
       (activate (surface 100 50) constructor (event_at ''touchstart'' 10 10)) (event_at ''pointerdown'' 10 10)
     = activate (surface 100 50) constructor (event_at ''touchstart'' 10 10)"
proof -
  have a: "isActivated (current (activate (surface 100 50) constructor (event_at ''touchstart'' 10 10)))"
    by (simp add: activate_constructor_current)
  from activate_while_activated [OF a] a show ?thesis by simp
qed

subsection \<open>The invariant\<close>

lemma state_ok_core: "core g = core f \<Longrightarrow> state_ok g \<longleftrightarrow> state_ok f"
  by (simp add: state_ok_def core_def)

lemma callbacks_ok_core: "core g = core f \<Longrightarrow> callbacks_ok g cbs \<longleftrightarrow> callbacks_ok f cbs"
  by (simp add: callbacks_ok_def core_def)

lemma frames_core: "core g = core f \<Longrightarrow> frames g = frames f"
  by (simp add: core_def)

lemma current_core: "core g = core f \<Longrightarrow> current g = current f"
  by (simp add: core_def current_def)

lemma callbacks_ok_Cons:
  "callbacks_ok f (cb # cbs) \<longleftrightarrow> callbacks_ok f [cb] \<and> callbacks_ok f cbs"
  by (auto simp add: callbacks_ok_def)

lemma callbacks_ok_append:
  "callbacks_ok f (cbs @ cbs') \<longleftrightarrow> callbacks_ok f cbs \<and> callbacks_ok f cbs'"
  by (auto simp add: callbacks_ok_def)

lemma callbacks_ok_subset:
  "callbacks_ok f cbs \<Longrightarrow> set cbs' \<subseteq> set cbs \<Longrightarrow> callbacks_ok f cbs'"
  by (auto simp add: callbacks_ok_def)

lemma default_sel [simp]:
  "isActivated defaultActivationState = False"
  "wasActivatedByPointer defaultActivationState = False"
  "wasElementMadeActive defaultActivationState = False"
  "activationStartTime defaultActivationState = 0"
  "activationEvent defaultActivationState = None"
  by (simp_all add: defaultActivationState_def)

lemma resetActivationState_ok:
  assumes "state_ok f"
  shows "state_ok (resetActivationState f)"
    and "callbacks_ok f cbs \<Longrightarrow> callbacks_ok (resetActivationState f) cbs"
    and "frames (resetActivationState f) = frames f"
    and "current (resetActivationState f) = defaultActivationState"
    and "loud (resetActivationState f) = loud f"
    and "calls (resetActivationState f) = calls f"
proof -
  show "state_ok (resetActivationState f)"
    using assms by (simp add: state_ok_def resetActivationState_def)
  show "callbacks_ok f cbs \<Longrightarrow> callbacks_ok (resetActivationState f) cbs"
    unfolding callbacks_ok_def resetActivationState_def
    by (simp add: less_Suc_eq) blast
  show "frames (resetActivationState f) = frames f"
    and "current (resetActivationState f) = defaultActivationState"
    and "loud (resetActivationState f) = loud f"
    and "calls (resetActivationState f) = calls f"
    by (simp_all add: resetActivationState_def current_def)
qed

lemma activateCallback_ok:
  assumes "state_ok f" and "r < next_ref f" and "isActivated (heap f r)"
  shows "state_ok (activateCallback env e r f)"
    and "callbacks_ok f cbs \<Longrightarrow> callbacks_ok (activateCallback env e r f) cbs"
    and "frames (activateCallback env e r f) = frames f"
proof -
  define f1 where "f1 = (if type e = ''keydown'' then emit IsSurfaceActive f else f)"
  define made where "made = (if type e = ''keydown'' then isSurfaceActive env else True)"
  define f2 where "f2 = f1\<lparr>heap := (heap f1)(r := (heap f1 r)\<lparr>wasElementMadeActive := made\<rparr>)\<rparr>"
  have c1: "core f1 = core f" by (simp add: f1_def)
  have eq: "activateCallback env e r f =
      (if made then animateActivation env f2 else resetActivationState f2)"
    by (simp add: activateCallback_def f1_def f2_def made_def Let_def)
  have h2: "heap f2 = (heap f)(r := (heap f r)\<lparr>wasElementMadeActive := made\<rparr>)"
    "activationState f2 = activationState f" "next_ref f2 = next_ref f" "frames f2 = frames f"
    using c1 by (simp_all add: f2_def core_def)
  have s2: "state_ok f2"
    using assms by (auto simp add: state_ok_def h2)
  have k2: "callbacks_ok f cbs \<Longrightarrow> callbacks_ok f2 cbs" for cbs
    by (auto simp add: callbacks_ok_def h2)
  show "state_ok (activateCallback env e r f)"
    using s2 by (simp add: eq resetActivationState_ok(1) state_ok_core [of "animateActivation env f2" f2])
  show "callbacks_ok f cbs \<Longrightarrow> callbacks_ok (activateCallback env e r f) cbs"
    using s2 k2 [of cbs]
    by (simp add: eq resetActivationState_ok(2) callbacks_ok_core [of "animateActivation env f2" f2])
  show "frames (activateCallback env e r f) = frames f"
    using s2 by (simp add: eq resetActivationState_ok(3) h2 frames_core [of "animateActivation env f2" f2])
qed

lemma loud_activateCallback [simp]: "loud (activateCallback env e r f) = loud f"
  by (simp add: activateCallback_def Let_def resetActivationState_def)

lemma core_run_callback:
  "\<forall>e r. cb \<noteq> ActivateCallback e r \<Longrightarrow> core (run_callback n env cb f) = core f"
  by (cases cb) (simp_all add: Let_def)

lemma loud_run_callback [simp]: "loud (run_callback n env cb f) = loud f"
  by (cases cb) (simp_all add: Let_def)

lemma run_callback_ok:
  assumes "state_ok f" and "callbacks_ok f [cb]"
  shows "state_ok (run_callback n env cb f)"
    and "callbacks_ok f cbs \<Longrightarrow> callbacks_ok (run_callback n env cb f) cbs"
    and "frames (run_callback n env cb f) = frames f"
proof -
  have "state_ok (run_callback n env cb f)
      \<and> (callbacks_ok f cbs \<longrightarrow> callbacks_ok (run_callback n env cb f) cbs)
      \<and> frames (run_callback n env cb f) = frames f"
  proof (cases "\<exists>e r. cb = ActivateCallback e r")
    case True
    then obtain e r where cb: "cb = ActivateCallback e r" by blast
    with assms(2) have r: "r < next_ref f" "isActivated (heap f r)"
      by (simp_all add: callbacks_ok_def)
    show ?thesis
      using activateCallback_ok [OF assms(1) r] by (simp add: cb)
  next
    case False
    then have c: "core (run_callback n env cb f) = core f"
      by (intro core_run_callback) blast
    show ?thesis
      using assms(1) by (simp add: state_ok_core [OF c] callbacks_ok_core [OF c] frames_core [OF c])
  qed
  then show "state_ok (run_callback n env cb f)"
    and "callbacks_ok f cbs \<Longrightarrow> callbacks_ok (run_callback n env cb f) cbs"
    and "frames (run_callback n env cb f) = frames f"
    by simp_all
qed

lemma run_callbacks_ok:
  "state_ok f \<Longrightarrow> callbacks_ok f (map snd ps) \<Longrightarrow> frames f = [] \<Longrightarrow>
   state_ok (foldl (\<lambda>g p. run_callback n env (snd p) g) f ps)
   \<and> frames (foldl (\<lambda>g p. run_callback n env (snd p) g) f ps) = []"
proof (induction ps arbitrary: f)
  case Nil
  then show ?case by simp
next
  case (Cons p ps)
  from Cons.prems(2) have k: "callbacks_ok f [snd p]" "callbacks_ok f (map snd ps)"
    using callbacks_ok_Cons [of f "snd p" "map snd ps"] by simp_all
  note ok = run_callback_ok [OF Cons.prems(1) k(1), where n = n and env = env]
  show ?case
    using Cons.IH [OF ok(1) ok(2) [OF k(2)]] ok(3) Cons.prems(3) by simp
qed

lemma loud_run_callbacks [simp]:
  "loud (foldl (\<lambda>g p. run_callback n env (snd p) g) f ps) = loud f"
  by (induction ps arbitrary: f) simp_all

lemma run_frame_ok:
  assumes "state_ok f" and "callbacks_ok f (map snd (frames f))"
  shows "state_ok (run_frame n env f)" and "callbacks_ok (run_frame n env f) (map snd (frames (run_frame n env f)))"
    and "loud (run_frame n env f) = loud f"
proof -
  have c: "core (f\<lparr>frames := []\<rparr>) = (heap f, activationState f, next_ref f, [], next_handle f)"
    by (simp add: core_def)
  have s: "state_ok (f\<lparr>frames := []\<rparr>)"
    using assms(1) by (simp add: state_ok_def)
  have k: "callbacks_ok (f\<lparr>frames := []\<rparr>) (map snd (frames f))"
    using assms(2) by (simp add: callbacks_ok_def)
  from run_callbacks_ok [OF s k, where n = n and env = env]
  have r: "state_ok (run_frame n env f)" "frames (run_frame n env f) = []"
    by (simp_all add: run_frame_def)
  show "state_ok (run_frame n env f)" by (rule r(1))
  show "callbacks_ok (run_frame n env f) (map snd (frames (run_frame n env f)))"
    by (simp add: r(2) callbacks_ok_def)
  show "loud (run_frame n env f) = loud f"
    by (simp add: run_frame_def)
qed

lemma requestAnimationFrame_sel [simp]:
  "heap (snd (requestAnimationFrame cb f)) = heap f"
  "activationState (snd (requestAnimationFrame cb f)) = activationState f"
  "next_ref (snd (requestAnimationFrame cb f)) = next_ref f"
  "frames (snd (requestAnimationFrame cb f)) = frames f @ [(next_handle f, cb)]"
  "calls (snd (requestAnimationFrame cb f)) = calls f"
  "loud (snd (requestAnimationFrame cb f)) = loud f"
  "timers (snd (requestAnimationFrame cb f)) = timers f"
  "fst (requestAnimationFrame cb f) = next_handle f"
  by (simp_all add: requestAnimationFrame_def)

lemma state_ok_heap: 
  "heap g = heap f \<Longrightarrow> activationState g = activationState f \<Longrightarrow> next_ref g = next_ref f
   \<Longrightarrow> state_ok g \<longleftrightarrow> state_ok f"
  by (simp add: state_ok_def)

lemma callbacks_ok_heap: 
  "heap g = heap f \<Longrightarrow> next_ref g = next_ref f \<Longrightarrow> callbacks_ok g cbs \<longleftrightarrow> callbacks_ok f cbs"
  by (simp add: callbacks_ok_def)

lemma callbacks_ok_other:
  "\<forall>e r. cb \<noteq> ActivateCallback e r \<Longrightarrow> callbacks_ok f [cb]"
  by (auto simp add: callbacks_ok_def)

lemma all_ok_schedule:
  assumes "all_ok f" and "\<forall>e r. cb \<noteq> ActivateCallback e r"
  shows "all_ok (snd (requestAnimationFrame cb f))"
  using assms callbacks_ok_other [OF assms(2), of f]
  by (simp add: all_ok_def callbacks_ok_append
      state_ok_heap [of "snd (requestAnimationFrame cb f)" f]
      callbacks_ok_heap [of "snd (requestAnimationFrame cb f)" f])

lemma activate_sel:
  assumes "\<not> isActivated (current f)"
  shows "heap (activate env f e) = (heap f)(activationState f :=
           (current f)\<lparr>isActivated := True, activationEvent := Some e,
              wasActivatedByPointer := (type e = ''mousedown'' \<or> type e = ''touchstart''
                \<or> type e = ''pointerdown''),
              activationStartTime := now env\<rparr>)"
    and "activationState (activate env f e) = activationState f"
    and "next_ref (activate env f e) = next_ref f"
    and "frames (activate env f e) = frames f @ [(next_handle f, ActivateCallback e (activationState f))]"
    and "calls (activate env f e) = calls f"
    and "timers (activate env f e) = timers f"
  using assms
  by (simp_all add: activate_def current_def Let_def cong: let_weak_cong)

lemma loud_activate [simp]: "loud (activate env f e) = loud f"
  by (simp add: activate_def Let_def loud_def requestAnimationFrame_def)

lemma all_ok_activate:
  assumes "all_ok f"
  shows "all_ok (activate env f e)"
proof (cases "isActivated (current f)")
  case True
  then show ?thesis using assms by (simp add: activate_def current_def)
next
  case False
  note sel = activate_sel [OF False, of env e]
  from assms have s: "state_ok f" and k: "callbacks_ok f (map snd (frames f))"
    and g: "registrations_ok (loud f)" by (simp_all add: all_ok_def)
  have 1: "state_ok (activate env f e)"
    using s by (simp add: state_ok_def sel)
  have 2: "callbacks_ok (activate env f e) (map snd (frames (activate env f e)))"
    using s k unfolding callbacks_ok_def state_ok_def by (auto simp add: sel)
  show ?thesis using 1 2 g by (simp add: all_ok_def)
qed

lemma deactivate_cases:
  assumes "state_ok f"
  shows "\<exists>g. deactivate env f e = Inr g
           \<and> (g = f \<or> g = snd (requestAnimationFrame (DeactivateCallback e (current f)) f)
              \<or> g = resetActivationState f
              \<or> g = resetActivationState (snd (requestAnimationFrame (DeactivateCallback e (current f)) f)))"
proof (cases "isActivated (current f)")
  case False
  then show ?thesis by (simp add: deactivate_def current_def)
next
  case True
  with assms obtain a where "activationEvent (current f) = Some a"
    by (auto simp add: state_ok_def current_def)
  with True show ?thesis
    by (simp add: deactivate_def current_def Let_def)
qed

lemma state_ok_schedule:
  "state_ok (snd (requestAnimationFrame cb f)) \<longleftrightarrow> state_ok f"
  by (simp add: state_ok_heap [of "snd (requestAnimationFrame cb f)" f])

lemma all_ok_reset:
  assumes "all_ok f"
  shows "all_ok (resetActivationState f)"
  using assms
  by (simp add: all_ok_def resetActivationState_ok)

lemma all_ok_deactivate:
  assumes "all_ok f" and "deactivate env f e = Inr g"
  shows "all_ok g"
proof -
  from assms(1) have s: "state_ok f" by (simp add: all_ok_def)
  have d: "all_ok (snd (requestAnimationFrame (DeactivateCallback e (current f)) f))"
    by (rule all_ok_schedule [OF assms(1)]) simp
  from deactivate_cases [OF s, of env e] assms(2)
  show ?thesis
    using assms(1) d all_ok_reset by auto
qed

lemma all_ok_listeners:
  assumes "all_ok f" and "listeners k env e f = Inr g"
  shows "all_ok g"
proof (cases k)
  case L_activate
  with assms show ?thesis using all_ok_activate by auto
next
  case L_deactivate
  with assms show ?thesis using all_ok_deactivate by auto
next
  case L_focus
  with assms show ?thesis using all_ok_schedule [of f FocusCallback] by auto
next
  case L_blur
  with assms show ?thesis using all_ok_schedule [of f BlurCallback] by auto
qed

lemma all_ok_call_listeners:
  "all_ok f \<Longrightarrow> call_listeners ks env e f = Inr g \<Longrightarrow> all_ok g"
proof (induction ks arbitrary: f)
  case Nil
  then show ?case by simp
next
  case (Cons k ks)
  from Cons.prems(2) obtain h where h: "listeners k env e f = Inr h"
    and r: "call_listeners ks env e h = Inr g"
    by (auto split: sum.splits)
  from all_ok_listeners [OF Cons.prems(1) h] r show ?case
    by (rule Cons.IH)
qed

lemma loud_foldl_register:
  "loud (foldl (\<lambda>g (k, t). emit (RegisterInteractionHandler t k) g) f ps) =
     loud f @ map (\<lambda>(k, t). RegisterInteractionHandler t k) ps"
  by (induction ps arbitrary: f) (simp_all add: split_beta)

lemma core_foldl_register [simp]:
  "core (foldl (\<lambda>g (k, t). emit (RegisterInteractionHandler t k) g) f ps) = core f"
  by (induction ps arbitrary: f) (simp_all add: split_beta)

lemma loud_foldl_deregister [simp]:
  "loud (foldl (\<lambda>g (k, t). emit (DeregisterInteractionHandler t k) g) f ps) = loud f"
  by (induction ps arbitrary: f) (simp_all add: split_beta)

lemma core_foldl_deregister [simp]:
  "core (foldl (\<lambda>g (k, t). emit (DeregisterInteractionHandler t k) g) f ps) = core f"
  by (induction ps arbitrary: f) (simp_all add: split_beta)

lemma loud_init:
  "loud (init env f) = loud f @ BrowserSupportsCssVars #
     (if browserSupportsCssVars env
      then map (\<lambda>(k, t). RegisterInteractionHandler t k) (concat listenerInfos) else [])"
  by (simp add: init_def isSupported_def addEventListeners_def loud_foldl_register)

lemma loud_destroy: "loud (destroy env f) = loud f @ [BrowserSupportsCssVars]"
  by (simp add: destroy_def isSupported_def removeEventListeners_def)

lemma loud_layout [simp]: "loud (layout f) = loud f"
  by (simp add: layout_def Let_def cancelAnimationFrame_def requestAnimationFrame_def split_beta)

lemma registrations_ok_append:
  "registrations_ok (cs @ cs') \<longleftrightarrow> registrations_ok cs \<and> registrations_ok cs'"
  by (auto simp add: registrations_ok_def)

lemma registrations_ok_listenerInfos:
  "registrations_ok (map (\<lambda>(k, t). RegisterInteractionHandler t k) (concat listenerInfos))"
  by (auto simp add: registrations_ok_def)

lemma registrations_ok_Cons:
  "registrations_ok (BrowserSupportsCssVars # cs) \<longleftrightarrow> registrations_ok cs"
  by (auto simp add: registrations_ok_def)

lemma registrations_ok_single: "registrations_ok [BrowserSupportsCssVars]"
  by (simp add: registrations_ok_def)

lemma all_ok_coreI:
  "all_ok f \<Longrightarrow> core g = core f \<Longrightarrow> registrations_ok (loud g) \<Longrightarrow> all_ok g"
  by (simp add: all_ok_def state_ok_core [of g f] callbacks_ok_core [of g f] frames_core [of g f])

lemma all_ok_loud: "all_ok f \<Longrightarrow> registrations_ok (loud f)"
  by (simp add: all_ok_def)

lemma all_ok_init:
  assumes "all_ok f"
  shows "all_ok (init env f)"
proof -
  have a: "all_ok (emit BrowserSupportsCssVars f)"
    by (rule all_ok_coreI [OF assms])
      (use all_ok_loud [OF assms] registrations_ok_single in
        \<open>simp_all add: registrations_ok_append\<close>)
  have b: "all_ok (addEventListeners (emit BrowserSupportsCssVars f))"
    by (rule all_ok_coreI [OF assms])
      (use all_ok_loud [OF assms] registrations_ok_single registrations_ok_listenerInfos in
        \<open>simp_all add: addEventListeners_def loud_foldl_register registrations_ok_append
          registrations_ok_Cons\<close>)
  have c: "all_ok (snd (requestAnimationFrame InitCallback
             (addEventListeners (emit BrowserSupportsCssVars f))))"
    by (rule all_ok_schedule [OF b]) simp
  show ?thesis using a c by (simp add: init_def isSupported_def)
qed

lemma all_ok_destroy:
  assumes "all_ok f"
  shows "all_ok (destroy env f)"
proof -
  have a: "all_ok (emit BrowserSupportsCssVars f)"
    by (rule all_ok_coreI [OF assms])
      (use all_ok_loud [OF assms] registrations_ok_single in
        \<open>simp_all add: registrations_ok_append\<close>)
  have b: "all_ok (removeEventListeners (emit BrowserSupportsCssVars f))"
    by (rule all_ok_coreI [OF assms])
      (use all_ok_loud [OF assms] registrations_ok_single in
        \<open>simp_all add: removeEventListeners_def registrations_ok_append\<close>)
  have c: "all_ok (snd (requestAnimationFrame DestroyCallback
             (removeEventListeners (emit BrowserSupportsCssVars f))))"
    by (rule all_ok_schedule [OF b]) simp
  show ?thesis using a c by (simp add: destroy_def isSupported_def)
qed

lemma all_ok_cancelAnimationFrame:
  assumes "all_ok f"
  shows "all_ok (cancelAnimationFrame h f)"
proof -
  have "callbacks_ok f (map snd (filter (\<lambda>p. fst p \<noteq> h) (frames f)))"
    by (rule callbacks_ok_subset [of f "map snd (frames f)"]) (use assms in \<open>auto simp add: all_ok_def\<close>)
  then show ?thesis
    using assms
    by (simp add: all_ok_def cancelAnimationFrame_def loud_def
        state_ok_heap [of "f\<lparr>frames := filter (\<lambda>p. fst p \<noteq> h) (frames f)\<rparr>" f]
        callbacks_ok_heap [of "f\<lparr>frames := filter (\<lambda>p. fst p \<noteq> h) (frames f)\<rparr>" f])
qed

lemma layout_eq:
  "layout f = (snd (requestAnimationFrame LayoutCallback
                 (if layoutFrame f \<noteq> 0 then cancelAnimationFrame (layoutFrame f) f else f)))
              \<lparr>layoutFrame := fst (requestAnimationFrame LayoutCallback
                 (if layoutFrame f \<noteq> 0 then cancelAnimationFrame (layoutFrame f) f else f))\<rparr>"
  by (simp add: layout_def Let_def split_beta)

lemma all_ok_layout:
  assumes "all_ok f"
  shows "all_ok (layout f)"
proof -
  let ?g = "if layoutFrame f \<noteq> 0 then cancelAnimationFrame (layoutFrame f) f else f"
  have g: "all_ok ?g" using assms all_ok_cancelAnimationFrame by simp
  have s: "all_ok (snd (requestAnimationFrame LayoutCallback ?g))"
    by (rule all_ok_schedule [OF g]) simp
  show ?thesis
    unfolding layout_eq
    by (rule all_ok_coreI [OF s]) (use all_ok_loud [OF s] in simp_all)
qed

lemma all_ok_run_frame:
  assumes "all_ok f"
  shows "all_ok (run_frame n env f)"
  using assms run_frame_ok [of f n env] by (simp add: all_ok_def)

lemma all_ok_fire_timeout:
  assumes "all_ok f"
  shows "all_ok (fire_timeout i f)"
  by (rule all_ok_coreI [OF assms]) (use all_ok_loud [OF assms] in simp_all)

lemma all_ok_constructor: "all_ok constructor"
  by (simp add: all_ok_def state_ok_def callbacks_ok_def registrations_ok_def loud_def
      constructor_def)

lemma all_ok_dispatch:
  "all_ok f \<Longrightarrow> dispatch env e f = Inr g \<Longrightarrow> all_ok g"
  unfolding dispatch_def by (rule all_ok_call_listeners)

lemma reachable_all_ok: "reachable n f \<Longrightarrow> all_ok f"
proof (induction rule: reachable.induct)
  case r_constructor
  show ?case by (rule all_ok_constructor)
next
  case (r_init f env)
  then show ?case by (simp add: all_ok_init)
next
  case (r_destroy f env)
  then show ?case by (simp add: all_ok_destroy)
next
  case (r_layout f)
  then show ?case by (simp add: all_ok_layout)
next
  case (r_activate f env e)
  then show ?case by (simp add: all_ok_activate)
next
  case (r_deactivate f env e g)
  then show ?case using all_ok_deactivate by blast
next
  case (r_dispatch f env e g)
  then show ?case using all_ok_dispatch by blast
next
  case (r_frame f env)
  then show ?case by (simp add: all_ok_run_frame)
next
  case (r_timeout f i)
  then show ?case by (simp add: all_ok_fire_timeout)
qed

lemma reachable_state_ok: "reachable n f \<Longrightarrow> state_ok f"
  using reachable_all_ok [of n f] by (simp add: all_ok_def)

lemma deactivate_total:
  assumes "state_ok f"
  shows "deactivate env f e \<noteq> Inl TypeError"
  using deactivate_cases [OF assms, of env e] by auto

text \<open>
  Claim C9. In every reachable state the current activation state carries its activation
  event whenever it is activated, and is the default instance whenever it is not; so
  reading the type of the stored event in the deactivation handler never fails. The reachable
  states are closed under activation, confirmation, deactivation and reset.
\<close>

theorem activation_invariant:
  assumes "reachable n f"
  shows "(isActivated (current f) \<longrightarrow> activationEvent (current f) \<noteq> None)
       \<and> (\<not> isActivated (current f) \<longrightarrow> current f = defaultActivationState)
       \<and> (\<forall>env e. deactivate env f e \<noteq> Inl TypeError)"
  using reachable_state_ok [OF assms] deactivate_total [of f]
  by (simp add: state_ok_def current_def)

text \<open>
  A new foundation, at rest, and the same foundation after a key-down.
\<close>

theorem activation_invariant_witness:
  "reachable constants (activate (surface 100 50) constructor (event_at ''keydown'' 0 0))
   \<and> isActivated (current (activate (surface 100 50) constructor (event_at ''keydown'' 0 0)))
   \<and> activationEvent (current (activate (surface 100 50) constructor (event_at ''keydown'' 0 0))) \<noteq> None
   \<and> reachable constants constructor \<and> \<not> isActivated (current constructor)
   \<and> current constructor = defaultActivationState"
proof -
  have c: "reachable constants constructor" by (rule r_constructor)
  have a: "reachable constants (activate (surface 100 50) constructor (event_at ''keydown'' 0 0))"
    by (rule r_activate [OF c])
  have i: "isActivated (current (activate (surface 100 50) constructor (event_at ''keydown'' 0 0)))"
    "\<not> isActivated (current constructor)"
    by (simp_all add: activate_def current_def constructor_def requestAnimationFrame_def
        defaultActivationState_def Let_def cong: let_weak_cong)
  from activation_invariant [OF a] activation_invariant [OF c] a c i show ?thesis by simp
qed

subsection \<open>Focus and blur\<close>

lemma registered_snoc:
  "registered (cs @ [c]) t = register_step t (registered cs t) c"
  by (simp add: registered_def)

lemma registered_Nil: "registered [] t = []"
  by (simp add: registered_def)

lemma registered_sound:
  "distinct (registered cs t)
   \<and> (\<forall>k \<in> set (registered cs t). RegisterInteractionHandler t k \<in> set cs)"
proof (induction cs rule: rev_induct)
  case Nil
  show ?case by (simp add: registered_Nil)
next
  case (snoc c cs)
  then show ?case
    by (cases c) (auto simp add: registered_snoc distinct_removeAll)
qed

lemma registrations_ok_loud: "registrations_ok (loud f) \<longleftrightarrow> registrations_ok (calls f)"
  by (simp add: registrations_ok_def loud_def)

lemma distinct_singleton: "distinct xs \<Longrightarrow> set xs \<subseteq> {a} \<Longrightarrow> xs = [] \<or> xs = [a]"
proof (cases xs)
  case Nil
  then show ?thesis by simp
next
  case (Cons y ys)
  assume d: "distinct xs" and s: "set xs \<subseteq> {a}"
  from s Cons have y: "y = a" by simp
  have "ys = []"
  proof (cases ys)
    case Nil
    then show ?thesis .
  next
    case (Cons z zs)
    with s \<open>xs = y # ys\<close> have "z = a" by simp
    with d y Cons \<open>xs = y # ys\<close> show ?thesis by simp
  qed
  with y Cons show ?thesis by simp
qed

lemma reachable_registered:
  assumes "reachable n f"
  shows "set (registered (calls f) t) \<subseteq> {k. (k, t) \<in> set (concat listenerInfos)}"
proof -
  from reachable_all_ok [OF assms] have "registrations_ok (calls f)"
    by (simp add: all_ok_def registrations_ok_loud)
  with registered_sound [of "calls f" t] show ?thesis
    by (auto simp add: registrations_ok_def)
qed

lemma reachable_registered_focus:
  assumes "reachable n f"
  shows "registered (calls f) ''focus'' = [] \<or> registered (calls f) ''focus'' = [L_focus]"
proof -
  have "set (registered (calls f) ''focus'') \<subseteq> {L_focus}"
    using reachable_registered [OF assms, of "''focus''"] by (auto simp add: listenerInfos_def)
  with registered_sound [of "calls f" "''focus''"] show ?thesis
    by (intro distinct_singleton) simp_all
qed

lemma reachable_registered_blur:
  assumes "reachable n f"
  shows "registered (calls f) ''blur'' = [] \<or> registered (calls f) ''blur'' = [L_blur]"
proof -
  have "set (registered (calls f) ''blur'') \<subseteq> {L_blur}"
    using reachable_registered [OF assms, of "''blur''"] by (auto simp add: listenerInfos_def)
  with registered_sound [of "calls f" "''blur''"] show ?thesis
    by (intro distinct_singleton) simp_all
qed

text \<open>
  Claim C10. In every reachable state, neither the activation handler nor the deactivation
  handler is registered for a focus or blur event. Dispatching such an event succeeds and
  either changes nothing (no handler registered) or requests one frame callback; the store,
  the current activation state and the trace stay as they are. The callback only adds,
  for focus, or removes, for blur, the background-active class.
\<close>

theorem focus_blur_outside_state_machine:
  assumes "reachable n f" and "type e = ''focus'' \<or> type e = ''blur''"
  shows "L_activate \<notin> set (registered (calls f) (type e))
       \<and> L_deactivate \<notin> set (registered (calls f) (type e))
       \<and> (\<exists>g. dispatch env e f = Inr g
              \<and> (g = f \<or> g = snd (requestAnimationFrame
                     (if type e = ''focus'' then FocusCallback else BlurCallback) f))
              \<and> heap g = heap f \<and> activationState g = activationState f \<and> calls g = calls f)
       \<and> run_callback n env' FocusCallback f' = emit (AddClass BG_ACTIVE) f'
       \<and> run_callback n env' BlurCallback f' = emit (RemoveClass BG_ACTIVE) f'"
proof -
  consider (focus) "type e = ''focus''" | (blur) "type e = ''blur''"
    using assms(2) by blast
  then show ?thesis
  proof cases
    case focus
    from reachable_registered_focus [OF assms(1)] show ?thesis
      by (auto simp add: focus dispatch_def)
  next
    case blur
    from reachable_registered_blur [OF assms(1)] show ?thesis
      by (auto simp add: blur dispatch_def)
  qed
qed

text \<open>
  A blur event on an initialised foundation.
\<close>

theorem focus_blur_outside_state_machine_witness:
  "reachable constants (init (surface 100 50) constructor)
   \<and> type (event_at ''blur'' 0 0) = ''blur''
   \<and> L_deactivate \<notin> set (registered (calls (init (surface 100 50) constructor)) ''blur'')
   \<and> dispatch (surface 100 50) (event_at ''blur'' 0 0) (init (surface 100 50) constructor)
       = Inr (snd (requestAnimationFrame BlurCallback (init (surface 100 50) constructor)))"
proof -
  have r: "reachable constants (init (surface 100 50) constructor)"
    by (intro r_init r_constructor)
  have t: "type (event_at ''blur'' 0 0) = ''focus'' \<or> type (event_at ''blur'' 0 0) = ''blur''"
    by (simp add: event_at_def)
  have t': "type (event_at ''blur'' 0 0) = ''blur''"
    by (simp add: event_at_def)
  have d: "dispatch (surface 100 50) (event_at ''blur'' 0 0) (init (surface 100 50) constructor)
       = Inr (snd (requestAnimationFrame BlurCallback (init (surface 100 50) constructor)))"
    by (simp add: dispatch_def registered_def init_def isSupported_def addEventListeners_def
        listenerInfos_def emit_def constructor_def surface_def event_at_def)
  from focus_blur_outside_state_machine [OF r t, of "surface 100 50" "surface 100 50" constructor]
    r t' d show ?thesis by simp
qed

subsection \<open>Deactivation\<close>

lemma deactivate_active:
  assumes "isActivated (current f)" and "activationEvent (current f) = Some a"
  shows "deactivate env f e =
     Inr ((if (if wasActivatedByPointer (current f) then type e = ''mouseup''
               else map_of DEACTIVATION_ACTIVATION_PAIRS (type e) = Some (type a))
           then resetActivationState else (\<lambda>g. g))
          (if map_of DEACTIVATION_ACTIVATION_PAIRS (type e) = Some (type a)
           then snd (requestAnimationFrame (DeactivateCallback e (current f)) f) else f))"
  using assms by (simp add: deactivate_def current_def Let_def)

lemma resetActivationState_sel [simp]:
  "frames (resetActivationState f) = frames f"
  "calls (resetActivationState f) = calls f"
  "timers (resetActivationState f) = timers f"
  "next_handle (resetActivationState f) = next_handle f"
  "current (resetActivationState f) = defaultActivationState"
  by (simp_all add: resetActivationState_def current_def)

lemma current_requestAnimationFrame [simp]:
  "current (snd (requestAnimationFrame cb f)) = current f"
  by (simp add: current_def)

lemma deactivate_active_props:
  assumes "isActivated (current f)" and "activationEvent (current f) = Some a"
  shows "\<exists>g. deactivate env f e = Inr g
      \<and> frames g = (if map_of DEACTIVATION_ACTIVATION_PAIRS (type e) = Some (type a)
                     then frames f @ [(next_handle f, DeactivateCallback e (current f))]
                     else frames f)
      \<and> (wasActivatedByPointer (current f) \<longrightarrow>
           (if type e = ''mouseup'' then current g = defaultActivationState
            else current g = current f \<and> activationState g = activationState f))
      \<and> (\<not> wasActivatedByPointer (current f) \<longrightarrow>
           (if map_of DEACTIVATION_ACTIVATION_PAIRS (type e) = Some (type a)
            then current g = defaultActivationState
            else current g = current f \<and> activationState g = activationState f))
      \<and> calls g = calls f"
  by (simp add: deactivate_active [OF assms])

lemma activate_current:
  assumes "\<not> isActivated (current f)"
  shows "current (activate env f e) =
           (current f)\<lparr>isActivated := True, activationEvent := Some e,
              wasActivatedByPointer := (type e = ''mousedown'' \<or> type e = ''touchstart''
                \<or> type e = ''pointerdown''),
              activationStartTime := now env\<rparr>"
  by (simp add: current_def activate_sel [OF assms])

lemma touch_sequence:
  assumes rest: "\<not> isActivated (current f)"
    and t1: "type e1 = ''touchstart''" and t2: "type e2 = ''touchend''" and t3: "type e3 = ''mouseup''"
  shows "\<exists>g2 g3. deactivate env2 (activate env1 f e1) e2 = Inr g2
      \<and> deactivate env3 g2 e3 = Inr g3
      \<and> frames g2 = frames f @ [(next_handle f, ActivateCallback e1 (activationState f)),
            (Suc (next_handle f), DeactivateCallback e2 (current (activate env1 f e1)))]
      \<and> current g2 = current (activate env1 f e1) \<and> isActivated (current g2)
      \<and> frames g3 = frames g2
      \<and> current g3 = defaultActivationState"
proof -
  let ?a1 = "activate env1 f e1"
  have c1: "isActivated (current ?a1)" "activationEvent (current ?a1) = Some e1"
    "wasActivatedByPointer (current ?a1)"
    by (simp_all add: activate_current [OF rest] t1)
  have h1: "next_handle ?a1 = Suc (next_handle f)"
    using rest by (simp add: activate_def current_def Let_def requestAnimationFrame_def
        cong: let_weak_cong)
  have d2: "deactivate env2 ?a1 e2 =
      Inr (snd (requestAnimationFrame (DeactivateCallback e2 (current ?a1)) ?a1))"
    using c1(3) by (simp add: deactivate_active [OF c1(1,2)] t1 t2 DEACTIVATION_ACTIVATION_PAIRS_def)
  let ?g2 = "snd (requestAnimationFrame (DeactivateCallback e2 (current ?a1)) ?a1)"
  have c2: "isActivated (current ?g2)" "activationEvent (current ?g2) = Some e1"
    "wasActivatedByPointer (current ?g2)"
    using c1 by simp_all
  have d3: "deactivate env3 ?g2 e3 = Inr (resetActivationState ?g2)"
    using c2(3) by (simp add: deactivate_active [OF c2(1,2)] t1 t3 DEACTIVATION_ACTIVATION_PAIRS_def)
  show ?thesis
    using c1(1) by (simp add: d2 d3 h1 activate_sel(4) [OF rest])
qed

text \<open>
  Claim C3. A deactivation event that arrives during an active cycle requests the
  deactivation callback, with the snapshot of the state, exactly when the pairing table maps its
  type to the type of the stored activation event. If the cycle was activated by a pointer, the
  state is reset exactly when the event is a mouse-up; otherwise exactly when the types pair.
  In particular, after a touch-start on a foundation at rest, a touch-end requests the callback
  and leaves the state activated, and a following mouse-up requests nothing and resets the
  state.
\<close>

theorem deactivate_pairing:
  "(isActivated (current f) \<and> activationEvent (current f) = Some a \<longrightarrow>
      (\<exists>g. deactivate env f e = Inr g
        \<and> frames g = (if map_of DEACTIVATION_ACTIVATION_PAIRS (type e) = Some (type a)
                       then frames f @ [(next_handle f, DeactivateCallback e (current f))]
                       else frames f)
        \<and> (wasActivatedByPointer (current f) \<longrightarrow>
             (if type e = ''mouseup'' then current g = defaultActivationState
              else current g = current f \<and> activationState g = activationState f))
        \<and> (\<not> wasActivatedByPointer (current f) \<longrightarrow>
             (if map_of DEACTIVATION_ACTIVATION_PAIRS (type e) = Some (type a)
              then current g = defaultActivationState
              else current g = current f \<and> activationState g = activationState f))
        \<and> calls g = calls f))
   \<and> (\<not> isActivated (current f0) \<and> type e1 = ''touchstart'' \<and> type e2 = ''touchend''
        \<and> type e3 = ''mouseup'' \<longrightarrow>
      (\<exists>g2 g3. deactivate env2 (activate env1 f0 e1) e2 = Inr g2
        \<and> deactivate env3 g2 e3 = Inr g3
        \<and> frames g2 = frames f0 @ [(next_handle f0, ActivateCallback e1 (activationState f0)),
              (Suc (next_handle f0), DeactivateCallback e2 (current (activate env1 f0 e1)))]
        \<and> current g2 = current (activate env1 f0 e1) \<and> isActivated (current g2)
        \<and> frames g3 = frames g2
        \<and> current g3 = defaultActivationState))"
  using deactivate_active_props [of f a env e] touch_sequence [of f0 e1 e2 e3 env2 env1 env3]
  by blast

text \<open>
  Touch-start, touch-end and mouse-up on a new foundation.
\<close>

theorem deactivate_pairing_witness:
  "\<not> isActivated (current constructor)
   \<and> type (event_at ''touchstart'' 5 5) = ''touchstart''
   \<and> type (event_at ''touchend'' 5 5) = ''touchend''
   \<and> type (event_at ''mouseup'' 5 5) = ''mouseup''
   \<and> (\<exists>g2 g3.
         deactivate (surface 100 50)
           (activate (surface 100 50) constructor (event_at ''touchstart'' 5 5))
           (event_at ''touchend'' 5 5) = Inr g2
       \<and> deactivate (surface 100 50) g2 (event_at ''mouseup'' 5 5) = Inr g3
       \<and> isActivated (current g2) \<and> frames g3 = frames g2
       \<and> current g3 = defaultActivationState)
   \<and> isActivated (current (activate (surface 100 50) constructor (event_at ''touchstart'' 5 5)))
   \<and> activationEvent (current (activate (surface 100 50) constructor (event_at ''touchstart'' 5 5)))
       = Some (event_at ''touchstart'' 5 5)
   \<and> (\<exists>g. deactivate (surface 100 50)
             (activate (surface 100 50) constructor (event_at ''touchstart'' 5 5))
             (event_at ''touchend'' 5 5) = Inr g
          \<and> map snd (frames g) =
              [ActivateCallback (event_at ''touchstart'' 5 5) 0,
               DeactivateCallback (event_at ''touchend'' 5 5)
                 (current (activate (surface 100 50) constructor (event_at ''touchstart'' 5 5)))])"
proof -
  let ?A = "activate (surface 100 50) constructor (event_at ''touchstart'' 5 5)"
  have r: "\<not> isActivated (current constructor)"
    by (simp add: current_def constructor_def defaultActivationState_def)
  have t: "type (event_at ''touchstart'' 5 5) = ''touchstart''"
    "type (event_at ''touchend'' 5 5) = ''touchend''"
    "type (event_at ''mouseup'' 5 5) = ''mouseup''"
    by (simp_all add: event_at_def)
  have a: "isActivated (current ?A)"
    "activationEvent (current ?A) = Some (event_at ''touchstart'' 5 5)"
    by (simp_all add: activate_current [OF r])
  have p: "map_of DEACTIVATION_ACTIVATION_PAIRS (type (event_at ''touchend'' 5 5))
        = Some (type (event_at ''touchstart'' 5 5))"
    by (simp add: DEACTIVATION_ACTIVATION_PAIRS_def event_at_def)
  have fr: "map snd (frames ?A) = [ActivateCallback (event_at ''touchstart'' 5 5) 0]"
    by (simp add: activate_sel(4) [OF r]) (simp add: constructor_def)
  note T = deactivate_pairing [of ?A "event_at ''touchstart'' 5 5" "surface 100 50"
      "event_at ''touchend'' 5 5" constructor "event_at ''touchstart'' 5 5"
      "event_at ''touchend'' 5 5" "event_at ''mouseup'' 5 5" "surface 100 50" "surface 100 50"
      "surface 100 50"]
  from T a p
  have 1: "\<exists>g. deactivate (surface 100 50) ?A (event_at ''touchend'' 5 5) = Inr g
        \<and> frames g = frames ?A @ [(next_handle ?A,
             DeactivateCallback (event_at ''touchend'' 5 5) (current ?A))]"
    by auto
  from T r t
  have 2: "\<exists>g2 g3. deactivate (surface 100 50) ?A (event_at ''touchend'' 5 5) = Inr g2
       \<and> deactivate (surface 100 50) g2 (event_at ''mouseup'' 5 5) = Inr g3
       \<and> isActivated (current g2) \<and> frames g3 = frames g2
       \<and> current g3 = defaultActivationState"
    by blast
  from 1 fr have 3: "\<exists>g. deactivate (surface 100 50) ?A (event_at ''touchend'' 5 5) = Inr g
          \<and> map snd (frames g) =
              [ActivateCallback (event_at ''touchstart'' 5 5) 0,
               DeactivateCallback (event_at ''touchend'' 5 5) (current ?A)]"
    by auto
  from r t a 2 3 show ?thesis by simp
qed

subsection \<open>Confirmation of an activation\<close>

lemma activateCallback_inactive_key:
  assumes "type e = ''keydown''" and "\<not> isSurfaceActive env"
  shows "calls (activateCallback env e r f) = calls f @ [IsSurfaceActive]"
    and "current (activateCallback env e r f) = defaultActivationState"
    and "frames (activateCallback env e r f) = frames f"
    and "timers (activateCallback env e r f) = timers f"
  using assms by (simp_all add: activateCallback_def Let_def)

lemma activateCallback_active_key:
  assumes "type e = ''keydown''" and "isSurfaceActive env"
  shows "activateCallback env e r f =
     animateActivation env
       ((emit IsSurfaceActive f)\<lparr>heap := (heap f)(r := (heap f r)\<lparr>wasElementMadeActive := True\<rparr>)\<rparr>)"
  using assms by (simp add: activateCallback_def Let_def)

lemma activateCallback_other:
  assumes "type e \<noteq> ''keydown''"
  shows "activateCallback env e r f =
     animateActivation env (f\<lparr>heap := (heap f)(r := (heap f r)\<lparr>wasElementMadeActive := True\<rparr>)\<rparr>)"
  using assms by (simp add: activateCallback_def Let_def)

lemma animateActivation_visuals:
  "AddClass BG_ACTIVE \<in> set (drop (length (calls g)) (calls (animateActivation env g)))"
  "IsSurfaceActive \<notin> set (drop (length (calls g)) (calls (animateActivation env g)))"
  by (simp_all add: calls_animateActivation cancel_calls_def split: cancel.split)

lemma run_frame_single:
  "frames f = [(h, cb)] \<Longrightarrow> run_frame n env f = run_callback n env cb (f\<lparr>frames := []\<rparr>)"
  by (simp add: run_frame_def)

lemma activate_then_frame:
  assumes "\<not> isActivated (current f)" and "frames f = []"
    and "type e = ''keydown''" and "\<not> isSurfaceActive env"
  shows "calls (run_frame n env (activate env0 f e)) = calls f @ [IsSurfaceActive]"
    and "current (run_frame n env (activate env0 f e)) = defaultActivationState"
    and "frames (run_frame n env (activate env0 f e)) = []"
proof -
  have fr: "frames (activate env0 f e) = [(next_handle f, ActivateCallback e (activationState f))]"
    using assms(2) by (simp add: activate_sel(4) [OF assms(1)])
  have eq: "run_frame n env (activate env0 f e) =
      activateCallback env e (activationState f) ((activate env0 f e)\<lparr>frames := []\<rparr>)"
    by (simp add: run_frame_single [OF fr])
  show "calls (run_frame n env (activate env0 f e)) = calls f @ [IsSurfaceActive]"
    and "current (run_frame n env (activate env0 f e)) = defaultActivationState"
    and "frames (run_frame n env (activate env0 f e)) = []"
    by (simp_all add: eq activateCallback_inactive_key [OF assms(3,4)] activate_sel(5) [OF assms(1)])
qed

text \<open>
  Claim C4. An activation on a foundation at rest requests the confirmation callback. For a
  key-down the callback asks the adapter whether the surface is active; if it is not, the
  callback does nothing but that query and the reset of the activation state to the default
  instance: no class is added, no callback or timer is left. If it is, and for every other type
  of event without asking, the callback marks the element as made active and runs the activation
  visuals, which add the background-active class. With no other callback pending, the frame
  after an unconfirmed key-down leaves the foundation at rest with only the query in the trace.
\<close>

theorem keyboard_confirmation:
  "(\<not> isActivated (current f) \<longrightarrow>
      frames (activate env0 f e) = frames f @ [(next_handle f, ActivateCallback e (activationState f))])
   \<and> (type e = ''keydown'' \<and> \<not> isSurfaceActive env \<longrightarrow>
        calls (activateCallback env e r g) = calls g @ [IsSurfaceActive]
        \<and> current (activateCallback env e r g) = defaultActivationState
        \<and> frames (activateCallback env e r g) = frames g
        \<and> timers (activateCallback env e r g) = timers g)
   \<and> (type e = ''keydown'' \<and> isSurfaceActive env \<longrightarrow>
        activateCallback env e r g =
          animateActivation env ((emit IsSurfaceActive g)
            \<lparr>heap := (heap g)(r := (heap g r)\<lparr>wasElementMadeActive := True\<rparr>)\<rparr>))
   \<and> (type e \<noteq> ''keydown'' \<longrightarrow>
        activateCallback env e r g =
          animateActivation env
            (g\<lparr>heap := (heap g)(r := (heap g r)\<lparr>wasElementMadeActive := True\<rparr>)\<rparr>))
   \<and> AddClass BG_ACTIVE \<in> set (drop (length (calls g)) (calls (animateActivation env g)))
   \<and> IsSurfaceActive \<notin> set (drop (length (calls g)) (calls (animateActivation env g)))
   \<and> (\<not> isActivated (current f) \<and> frames f = [] \<and> type e = ''keydown'' \<and> \<not> isSurfaceActive env \<longrightarrow>
        calls (run_frame n env (activate env0 f e)) = calls f @ [IsSurfaceActive]
        \<and> current (run_frame n env (activate env0 f e)) = defaultActivationState
        \<and> frames (run_frame n env (activate env0 f e)) = [])"
  using activate_sel(4) [of f env0 e] activateCallback_inactive_key [of e env r g]
    activateCallback_active_key [of e env r g] activateCallback_other [of e env r g]
    animateActivation_visuals [of g env] activate_then_frame [of f e env n env0]
  by blast

text \<open>
  A key-down on a surface that is not active, a key-down on one that is, and a mouse-down.
\<close>

theorem keyboard_confirmation_witness:
  "\<not> isActivated (current constructor) \<and> frames constructor = []
   \<and> type (event_at ''keydown'' 0 0) = ''keydown''
   \<and> \<not> isSurfaceActive ((surface 100 50)\<lparr>isSurfaceActive := False\<rparr>)
   \<and> calls (run_frame constants ((surface 100 50)\<lparr>isSurfaceActive := False\<rparr>)
        (activate (surface 100 50) constructor (event_at ''keydown'' 0 0))) = [IsSurfaceActive]
   \<and> current (run_frame constants ((surface 100 50)\<lparr>isSurfaceActive := False\<rparr>)
        (activate (surface 100 50) constructor (event_at ''keydown'' 0 0))) = defaultActivationState
   \<and> type (event_at ''keydown'' 0 0) = ''keydown'' \<and> isSurfaceActive (surface 100 50)
   \<and> calls (activateCallback (surface 100 50) (event_at ''keydown'' 0 0) 0 constructor) =
        [IsSurfaceActive, RemoveClass BG_BOUNDED_ACTIVE_FILL, RemoveClass FG_UNBOUNDED_DEACTIVATION,
         RemoveClass FG_BOUNDED_ACTIVE_FILL, AddClass BG_ACTIVE, IsUnbounded]
   \<and> type (event_at ''mousedown'' 1 1) \<noteq> ''keydown''
   \<and> calls (activateCallback (surface 100 50) (event_at ''mousedown'' 1 1) 0 constructor) =
        [RemoveClass BG_BOUNDED_ACTIVE_FILL, RemoveClass FG_UNBOUNDED_DEACTIVATION,
         RemoveClass FG_BOUNDED_ACTIVE_FILL, AddClass BG_ACTIVE, IsUnbounded]"
proof -
  let ?off = "(surface 100 50)\<lparr>isSurfaceActive := False\<rparr>"
  have h1: "\<not> isActivated (current constructor)" "frames constructor = []"
    "type (event_at ''keydown'' 0 0) = ''keydown''" "\<not> isSurfaceActive ?off"
    by (simp_all add: current_def constructor_def defaultActivationState_def event_at_def)
  have h2: "isSurfaceActive (surface 100 50)" "type (event_at ''mousedown'' 1 1) \<noteq> ''keydown''"
    by (simp_all add: surface_def event_at_def)
  have c: "calls constructor = []" "cancelBgBounded constructor = Noop"
    "cancelFgBounded constructor = Noop" "cancelFgUnbounded constructor = Noop"
    by (simp_all add: constructor_def)
  have u: "\<not> isUnbounded (surface 100 50)" by (simp add: surface_def)
  from keyboard_confirmation [of constructor "surface 100 50" "event_at ''keydown'' 0 0" ?off
      0 constructor constants] h1 c
  have 1: "calls (run_frame constants ?off
        (activate (surface 100 50) constructor (event_at ''keydown'' 0 0))) = [IsSurfaceActive]
     \<and> current (run_frame constants ?off
        (activate (surface 100 50) constructor (event_at ''keydown'' 0 0))) = defaultActivationState"
    by simp
  from keyboard_confirmation [of constructor "surface 100 50" "event_at ''keydown'' 0 0"
      "surface 100 50" 0 constructor constants] h1(3) h2(1)
  have 2: "calls (activateCallback (surface 100 50) (event_at ''keydown'' 0 0) 0 constructor) =
        [IsSurfaceActive, RemoveClass BG_BOUNDED_ACTIVE_FILL, RemoveClass FG_UNBOUNDED_DEACTIVATION,
         RemoveClass FG_BOUNDED_ACTIVE_FILL, AddClass BG_ACTIVE, IsUnbounded]"
    using c u by (simp add: calls_animateActivation cancel_calls_def)
  from keyboard_confirmation [of constructor "surface 100 50" "event_at ''mousedown'' 1 1"
      "surface 100 50" 0 constructor constants] h2(2)
  have 3: "calls (activateCallback (surface 100 50) (event_at ''mousedown'' 1 1) 0 constructor) =
        [RemoveClass BG_BOUNDED_ACTIVE_FILL, RemoveClass FG_UNBOUNDED_DEACTIVATION,
         RemoveClass FG_BOUNDED_ACTIVE_FILL, AddClass BG_ACTIVE, IsUnbounded]"
    using c u by (simp add: calls_animateActivation cancel_calls_def)
  from h1 h2 1 2 3 show ?thesis by simp
qed

section \<open>The capability query\<close>

lemma count_list_filter:
  "count_list (filter P xs) x = (if P x then count_list xs x else 0)"
  by (induction xs) auto

lemma count_loud:
  "count_list (calls f) BrowserSupportsCssVars = count_list (loud f) BrowserSupportsCssVars"
  by (simp add: loud_def count_list_filter)

lemma count_registrations:
  "count_list (map (\<lambda>(k, t). RegisterInteractionHandler t k) ps) BrowserSupportsCssVars = 0"
  by (induction ps) (auto simp add: split_beta)

lemma loud_resetActivationState [simp]: "loud (resetActivationState f) = loud f"
  by (simp add: resetActivationState_def)

lemma loud_deactivate: "deactivate env f e = Inr g \<Longrightarrow> loud g = loud f"
  by (auto simp add: deactivate_def Let_def split: if_splits option.splits)

lemma loud_listeners: "listeners k env e f = Inr g \<Longrightarrow> loud g = loud f"
  by (cases k) (auto simp add: loud_deactivate)

lemma loud_call_listeners: "call_listeners ks env e f = Inr g \<Longrightarrow> loud g = loud f"
proof (induction ks arbitrary: f)
  case Nil
  then show ?case by simp
next
  case (Cons k ks)
  from Cons.prems obtain h where h: "listeners k env e f = Inr h"
    and r: "call_listeners ks env e h = Inr g"
    by (auto split: sum.splits)
  from Cons.IH [OF r] loud_listeners [OF h] show ?case by simp
qed

lemma current_init [simp]: "current (init env f) = current f"
proof -
  have "core (addEventListeners (emit BrowserSupportsCssVars f)) = core f"
    by (simp add: addEventListeners_def)
  then have "current (addEventListeners (emit BrowserSupportsCssVars f)) = current f"
    by (rule current_core)
  moreover have "current (emit BrowserSupportsCssVars f) = current f"
    by (simp add: current_def)
  ultimately show ?thesis
    by (simp add: init_def isSupported_def)
qed

lemma deactivate_at_rest: "\<not> isActivated (current f) \<Longrightarrow> deactivate env f e = Inr f"
  by (simp add: deactivate_def current_def)

lemma current_constructor [simp]: "current constructor = defaultActivationState"
  by (simp add: current_def constructor_def)

lemma registered_init_mouseup:
  "registered (calls (init (surface 100 50) constructor)) ''mouseup'' = [L_deactivate]"
  by (simp add: registered_def init_def isSupported_def addEventListeners_def
        listenerInfos_def emit_def requestAnimationFrame_def constructor_def surface_def)

text \<open>
  Claim C5, as the code has it. The foundation does not cache the answer of the capability
  query: \<^verbatim>\<open>isSupported_\<close> is a getter that calls the adapter at each read, so \<^verbatim>\<open>init\<close> makes one
  call and \<^verbatim>\<open>destroy\<close> makes another. No other operation makes the call.
\<close>

theorem capability_query_not_cached:
  "count_list (calls (init env f)) BrowserSupportsCssVars
     = Suc (count_list (calls f) BrowserSupportsCssVars)
   \<and> count_list (calls (destroy env f)) BrowserSupportsCssVars
     = Suc (count_list (calls f) BrowserSupportsCssVars)
   \<and> count_list (calls (layout f)) BrowserSupportsCssVars
     = count_list (calls f) BrowserSupportsCssVars
   \<and> count_list (calls (activate env f e)) BrowserSupportsCssVars
     = count_list (calls f) BrowserSupportsCssVars
   \<and> count_list (calls (run_frame n env f)) BrowserSupportsCssVars
     = count_list (calls f) BrowserSupportsCssVars
   \<and> count_list (calls (fire_timeout i f)) BrowserSupportsCssVars
     = count_list (calls f) BrowserSupportsCssVars
   \<and> (\<forall>g. deactivate env f e = Inr g \<longrightarrow>
        count_list (calls g) BrowserSupportsCssVars = count_list (calls f) BrowserSupportsCssVars)
   \<and> (\<forall>g. dispatch env e f = Inr g \<longrightarrow>
        count_list (calls g) BrowserSupportsCssVars = count_list (calls f) BrowserSupportsCssVars)"
proof -
  have d: "\<forall>g. deactivate env f e = Inr g \<longrightarrow>
        count_list (calls g) BrowserSupportsCssVars = count_list (calls f) BrowserSupportsCssVars"
    by (simp add: count_loud loud_deactivate)
  have p: "\<forall>g. dispatch env e f = Inr g \<longrightarrow>
        count_list (calls g) BrowserSupportsCssVars = count_list (calls f) BrowserSupportsCssVars"
    unfolding dispatch_def by (simp add: count_loud loud_call_listeners)
  have r: "count_list (calls (run_frame n env f)) BrowserSupportsCssVars
     = count_list (calls f) BrowserSupportsCssVars"
    by (simp add: count_loud run_frame_def)
  show ?thesis
    using d p r by (simp add: count_loud loud_init loud_destroy count_registrations)
qed

text \<open>
  Initialisation, a stray mouse-up and teardown of a new foundation.
\<close>

theorem capability_query_not_cached_witness:
  "count_list (calls (init (surface 100 50) constructor)) BrowserSupportsCssVars = 1
   \<and> deactivate (surface 100 50) (init (surface 100 50) constructor) (event_at ''mouseup'' 0 0)
       = Inr (init (surface 100 50) constructor)
   \<and> dispatch (surface 100 50) (event_at ''mouseup'' 0 0) (init (surface 100 50) constructor)
       = Inr (init (surface 100 50) constructor)
   \<and> count_list (calls (destroy (surface 100 50) (init (surface 100 50) constructor)))
       BrowserSupportsCssVars = 2"
proof -
  let ?I = "init (surface 100 50) constructor"
  have c: "count_list (calls constructor) BrowserSupportsCssVars = 0"
    by (simp add: constructor_def)
  have d: "deactivate (surface 100 50) ?I (event_at ''mouseup'' 0 0) = Inr ?I"
    by (rule deactivate_at_rest) simp
  have t: "type (event_at ''mouseup'' 0 0) = ''mouseup''"
    by (simp add: event_at_def)
  have p: "dispatch (surface 100 50) (event_at ''mouseup'' 0 0) ?I = Inr ?I"
    by (simp add: dispatch_def t registered_init_mouseup d)
  note T1 = capability_query_not_cached [of "surface 100 50" constructor]
  note T2 = capability_query_not_cached [of "surface 100 50" ?I "event_at ''mouseup'' 0 0"]
  from T1 c have 1: "count_list (calls ?I) BrowserSupportsCssVars = 1"
    by simp
  from T2 1 have 2: "count_list (calls (destroy (surface 100 50) ?I)) BrowserSupportsCssVars = 2"
    by simp
  from 1 2 d p show ?thesis by simp
qed

text \<open>
  Claim C5 as stated fails: after \<^verbatim>\<open>init\<close> and \<^verbatim>\<open>destroy\<close> the adapter has been asked twice.
\<close>

theorem capability_query_counterexample:
  "count_list (calls (destroy (surface 100 50) (init (surface 100 50) constructor)))
     BrowserSupportsCssVars = 2"
proof -
  have "loud constructor = []" by (simp add: loud_def constructor_def)
  then show ?thesis
    by (simp add: count_loud loud_init loud_destroy count_registrations surface_def)
qed

end
